theory Spec2Isabelle
  imports Complex_Main "HOL-Library.Word"
begin

section \<open>JavaScript strings and numbers\<close>

text \<open>
  A JavaScript string is modelled as a \<^typ>\<open>string\<close>: a list of code units, so that
  \<^const>\<open>length\<close> is the string's \<^verbatim>\<open>length\<close> and \<^const>\<open>take\<close> is
  \<^verbatim>\<open>slice(0, n)\<close>. Code units are restricted to the range of \<^typ>\<open>char\<close>
  (0 to 255, the Latin-1 block), which covers every literal of the sources.
\<close>

definition toLowerChar :: "char \<Rightarrow> char" where
  "toLowerChar c = (case c of Char b0 b1 b2 b3 b4 b5 b6 b7 \<Rightarrow>
     (let n = (of_char c :: nat) in
      if (65 \<le> n \<and> n \<le> 90) \<or> (192 \<le> n \<and> n \<le> 214) \<or> (216 \<le> n \<and> n \<le> 222)
      then Char b0 b1 b2 b3 b4 True b6 b7 else c))"

definition toLowerCase :: "string \<Rightarrow> string" where
  "toLowerCase s = map toLowerChar s"

definition isWhiteSpace :: "char \<Rightarrow> bool" where
  "isWhiteSpace c = ((of_char c :: nat) \<in> {9, 10, 11, 12, 13, 32, 160})"

definition trim :: "string \<Rightarrow> string" where
  "trim s = rev (dropWhile isWhiteSpace (rev (dropWhile isWhiteSpace s)))"

fun startsWith :: "string \<Rightarrow> string \<Rightarrow> bool" where
  "startsWith s [] = True"
| "startsWith [] (p # ps) = False"
| "startsWith (c # cs) (p # ps) = (c = p \<and> startsWith cs ps)"

fun includes_str :: "string \<Rightarrow> string \<Rightarrow> bool" where
  "includes_str [] p = startsWith [] p"
| "includes_str (c # cs) p = (startsWith (c # cs) p \<or> includes_str cs p)"

definition endsWith :: "string \<Rightarrow> string \<Rightarrow> bool" where
  "endsWith s p = startsWith (rev s) (rev p)"

text \<open>\<^verbatim>\<open>xs.join(sep)\<close> on an array of strings.\<close>

fun join :: "string \<Rightarrow> string list \<Rightarrow> string" where
  "join sep [] = []"
| "join sep [x] = x"
| "join sep (x # y # ys) = x @ sep @ join sep (y # ys)"

text \<open>
  A JavaScript number that reaches a comparison or \<^verbatim>\<open>Number.isFinite\<close>: a finite
  value (kept exact, as a real number), \<^verbatim>\<open>NaN\<close> or an infinity.
\<close>

datatype jsnum = Num real | NaN | PosInf | NegInf

fun isFinite :: "jsnum \<Rightarrow> bool" where
  "isFinite (Num x) = True"
| "isFinite NaN = False"
| "isFinite PosInf = False"
| "isFinite NegInf = False"

text \<open>\<^verbatim>\<open>a >= b\<close> on numbers: false as soon as one side is \<^verbatim>\<open>NaN\<close>.\<close>

fun js_ge :: "jsnum \<Rightarrow> jsnum \<Rightarrow> bool" where
  "js_ge NaN b = False"
| "js_ge a NaN = False"
| "js_ge PosInf b = True"
| "js_ge a NegInf = True"
| "js_ge NegInf b = False"
| "js_ge a PosInf = False"
| "js_ge (Num x) (Num y) = (y \<le> x)"

section \<open>Pricing (backend/pricing.js)\<close>

text \<open>
  Amounts of money are real numbers: the arithmetic of the source is kept exact, and the
  rounding of \<^verbatim>\<open>toFixed\<close> is the one of the exact value.
  Token counts are counts: natural numbers, absent when the field is missing. The three
  \<^verbatim>\<open>cached_tokens\<close> fields are the ones reached through
  \<^verbatim>\<open>usage.input_tokens_details?.cached_tokens\<close>,
  \<^verbatim>\<open>usage.input_token_details?.cached_tokens\<close> and
  \<^verbatim>\<open>usage.prompt_tokens_details?.cached_tokens\<close>.
\<close>

record usage =
  input_tokens :: "nat option"
  output_tokens :: "nat option"
  prompt_tokens :: "nat option"
  completion_tokens :: "nat option"
  total_tokens :: "nat option"
  input_tokens_details_cached_tokens :: "nat option"
  input_token_details_cached_tokens :: "nat option"
  prompt_tokens_details_cached_tokens :: "nat option"

datatype model_key = GPT_5 | GPT_4O_MINI | MISTRAL_SMALL | MISTRAL_MEDIUM | MISTRAL_LARGE

record prices =
  price_in :: real
  price_cache :: "real option"
  price_out :: real

text \<open>
  \<^verbatim>\<open>process.env\<close>, read as numbers: the value of a variable that is set.
  \<open>env_number env name d\<close> is \<^verbatim>\<open>Number(process.env.NAME ?? d)\<close>.
\<close>

type_synonym env = "string \<rightharpoonup> real"

definition env_number :: "env \<Rightarrow> string \<Rightarrow> real \<Rightarrow> real" where
  "env_number env name d = (case env name of None \<Rightarrow> d | Some v \<Rightarrow> v)"

definition USD_PER_MILLION :: "real \<Rightarrow> real" where
  "USD_PER_MILLION n = n / 1000000"

definition DEFAULT_PRICING :: "env \<Rightarrow> model_key \<Rightarrow> prices" where
  "DEFAULT_PRICING env key = (case key of
     GPT_5 \<Rightarrow> \<lparr>price_in = env_number env ''PRICE_GPT5_IN'' (125 / 100),
               price_cache = Some (env_number env ''PRICE_GPT5_CACHE'' (125 / 1000)),
               price_out = env_number env ''PRICE_GPT5_OUT'' 10\<rparr>
   | GPT_4O_MINI \<Rightarrow> \<lparr>price_in = env_number env ''PRICE_4OMINI_IN'' (15 / 100),
               price_cache = Some (env_number env ''PRICE_4OMINI_CACHE'' (75 / 1000)),
               price_out = env_number env ''PRICE_4OMINI_OUT'' (60 / 100)\<rparr>
   | MISTRAL_SMALL \<Rightarrow> \<lparr>price_in = env_number env ''PRICE_MISTRAL_SMALL_IN'' (10 / 100),
               price_cache = None,
               price_out = env_number env ''PRICE_MISTRAL_SMALL_OUT'' (30 / 100)\<rparr>
   | MISTRAL_MEDIUM \<Rightarrow> \<lparr>price_in = env_number env ''PRICE_MISTRAL_MEDIUM_IN'' (40 / 100),
               price_cache = None,
               price_out = env_number env ''PRICE_MISTRAL_MEDIUM_OUT'' 2\<rparr>
   | MISTRAL_LARGE \<Rightarrow> \<lparr>price_in = env_number env ''PRICE_MISTRAL_LARGE_IN'' (50 / 100),
               price_cache = None,
               price_out = env_number env ''PRICE_MISTRAL_LARGE_OUT'' (150 / 100)\<rparr>)"

text \<open>A configuration of the environment under which no rate of the table is negative.\<close>

definition pricesNonNegative :: "env \<Rightarrow> bool" where
  "pricesNonNegative env =
     list_all (\<lambda>key. 0 \<le> price_in (DEFAULT_PRICING env key)
                   \<and> 0 \<le> price_out (DEFAULT_PRICING env key)
                   \<and> (case price_cache (DEFAULT_PRICING env key) of
                        None \<Rightarrow> True | Some c \<Rightarrow> 0 \<le> c))
       [GPT_5, GPT_4O_MINI, MISTRAL_SMALL, MISTRAL_MEDIUM, MISTRAL_LARGE]"

text \<open>\<^verbatim>\<open>String(model ?? '').toLowerCase().trim()\<close>, then the first pattern that matches.\<close>

definition resolveModelKey :: "string option \<Rightarrow> model_key option" where
  "resolveModelKey model =
     (let m = trim (toLowerCase (case model of None \<Rightarrow> [] | Some s \<Rightarrow> s)) in
      if startsWith m ''gpt-5'' then Some GPT_5
      else if startsWith m ''gpt-4o-mini'' then Some GPT_4O_MINI
      else if includes_str m ''mistral-small'' \<or> includes_str m ''mistral-tiny'' then Some MISTRAL_SMALL
      else if includes_str m ''mistral-medium'' then Some MISTRAL_MEDIUM
      else if includes_str m ''mistral-large'' then Some MISTRAL_LARGE
      else None)"

text \<open>\<^verbatim>\<open>Number(v ?? 0)\<close> on a token count, and \<^verbatim>\<open>a || b\<close> on two numbers.\<close>

definition Number0 :: "nat option \<Rightarrow> int" where
  "Number0 v = (case v of None \<Rightarrow> 0 | Some n \<Rightarrow> int n)"

definition js_or :: "int \<Rightarrow> int \<Rightarrow> int" where
  "js_or a b = (if a \<noteq> 0 then a else b)"

text \<open>\<^verbatim>\<open>a ?? b\<close> on two optional values.\<close>

definition nullish :: "'a option \<Rightarrow> 'a option \<Rightarrow> 'a option" where
  "nullish a b = (case a of None \<Rightarrow> b | Some v \<Rightarrow> Some v)"

record extracted =
  input :: int
  output' :: int
  cached :: int
  nonCached :: int

text \<open>The reported cached-token count of \<^verbatim>\<open>extractUsage\<close>, before clamping.\<close>

definition reportedCached :: "usage \<Rightarrow> int" where
  "reportedCached u =
     (let cachedR = Number0 (nullish (input_tokens_details_cached_tokens u)
                                     (input_token_details_cached_tokens u));
          cachedC = Number0 (nullish (prompt_tokens_details_cached_tokens u)
                              (nullish (input_tokens_details_cached_tokens u)
                                       (input_token_details_cached_tokens u)))
      in js_or (js_or cachedR cachedC) 0)"

definition extractUsage :: "usage option \<Rightarrow> extracted" where
  "extractUsage usage = (case usage of
     None \<Rightarrow> \<lparr>input = 0, output' = 0, cached = 0, nonCached = 0\<rparr>
   | Some u \<Rightarrow>
      (let inputR = Number0 (input_tokens u);
           outputR = Number0 (output_tokens u);
           inputC = Number0 (prompt_tokens u);
           outputC = Number0 (completion_tokens u);
           inp = js_or (js_or inputR inputC) 0;
           out = js_or (js_or outputR outputC) 0;
           cachedClamped = max 0 (min (reportedCached u) inp);
           nonCached = max 0 (inp - cachedClamped)
       in \<lparr>input = inp, output' = out, cached = cachedClamped, nonCached = nonCached\<rparr>))"

text \<open>
  \<^verbatim>\<open>Number(total.toFixed(6))\<close>: the sign is set aside, a magnitude of at least
  \<open>10\<^sup>2\<^sup>1\<close> is printed as it is, and any other is rounded to the nearest multiple of
  \<open>10\<^sup>-\<^sup>6\<close>, the larger one on a tie.
\<close>

definition toFixed6 :: "real \<Rightarrow> real" where
  "toFixed6 x =
     (let a = \<bar>x\<bar>;
          r = (if 10 ^ 21 \<le> a then a else of_int \<lfloor>a * 10 ^ 6 + 1 / 2\<rfloor> / 10 ^ 6)
      in if x < 0 then - r else r)"

definition computeCostFromUsage :: "env \<Rightarrow> usage option \<Rightarrow> string option \<Rightarrow> real" where
  "computeCostFromUsage env usage model = (case resolveModelKey model of
     None \<Rightarrow> 0
   | Some key \<Rightarrow>
      (let prices = DEFAULT_PRICING env key;
           u = extractUsage usage
       in case price_cache prices of
            Some cache \<Rightarrow>
              (let inputCost = USD_PER_MILLION (price_in prices) * of_int (nonCached u);
                   cachedCost = USD_PER_MILLION cache * of_int (cached u);
                   outputCost = USD_PER_MILLION (price_out prices) * of_int (output' u)
               in toFixed6 (inputCost + cachedCost + outputCost))
          | None \<Rightarrow>
              (let inputCost = USD_PER_MILLION (price_in prices) * of_int (input u);
                   outputCost = USD_PER_MILLION (price_out prices) * of_int (output' u)
               in toFixed6 (inputCost + outputCost))))"

section \<open>Errors and the console\<close>

text \<open>
  A thrown value: an error object with its message and, for the errors of a provider's
  client, an HTTP status. \<open>new_Error msg\<close> is \<^verbatim>\<open>new Error(msg)\<close>.
\<close>

datatype js_error = JsError (status: "int option") (message: string)

definition new_Error :: "string \<Rightarrow> js_error" where
  "new_Error msg = JsError None msg"

datatype console_line = ConsoleLog string | ConsoleWarn string | ConsoleError string

section \<open>JSON values\<close>

datatype json =
  JNull | JBool bool | JNum int | JStr string | JArr "json list" | JObj "(string \<times> json) list"

text \<open>Truthiness, and the property \<open>k\<close> of a value (\<open>None\<close> is \<^verbatim>\<open>undefined\<close>).\<close>

fun truthy :: "json \<Rightarrow> bool" where
  "truthy JNull = False"
| "truthy (JBool b) = b"
| "truthy (JNum n) = (n \<noteq> 0)"
| "truthy (JStr s) = (s \<noteq> [])"
| "truthy (JArr xs) = True"
| "truthy (JObj kvs) = True"

fun getProp :: "string \<Rightarrow> json \<Rightarrow> json option" where
  "getProp k (JObj kvs) = map_of kvs k"
| "getProp k v = None"

text \<open>Decimal digits of a number, as \<^verbatim>\<open>String(n)\<close> prints an integer.\<close>

definition digitChar :: "nat \<Rightarrow> char" where
  "digitChar d = ''0123456789abcdef'' ! d"

fun toDigits :: "nat \<Rightarrow> string" where
  "toDigits n = (if n < 10 then [digitChar n] else toDigits (n div 10) @ [digitChar (n mod 10)])"

definition intToString :: "int \<Rightarrow> string" where
  "intToString i = (if i < 0 then ''-'' @ toDigits (nat (- i)) else toDigits (nat i))"

text \<open>
  \<^verbatim>\<open>JSON.stringify(v)\<close> without indentation: the double quote and the backslash are
  escaped, control characters are written with their short escape or as \<^verbatim>\<open>\u00XX\<close>.
\<close>

definition escapeChar :: "char \<Rightarrow> string" where
  "escapeChar c =
     (let n = (of_char c :: nat) in
      if n = 34 then [CHR 0x5C, CHR 0x22]
      else if n = 92 then [CHR 0x5C, CHR 0x5C]
      else if n = 8 then [CHR 0x5C, CHR ''b'']
      else if n = 9 then [CHR 0x5C, CHR ''t'']
      else if n = 10 then [CHR 0x5C, CHR ''n'']
      else if n = 12 then [CHR 0x5C, CHR ''f'']
      else if n = 13 then [CHR 0x5C, CHR ''r'']
      else if n < 32 then [CHR 0x5C, CHR ''u'', CHR ''0'', CHR ''0'', digitChar (n div 16), digitChar (n mod 16)]
      else [c])"

definition quoteString :: "string \<Rightarrow> string" where
  "quoteString s = [CHR 0x22] @ concat (map escapeChar s) @ [CHR 0x22]"

fun stringify :: "json \<Rightarrow> string"
  and stringifyElements :: "json list \<Rightarrow> string list"
  and stringifyMembers :: "(string \<times> json) list \<Rightarrow> string list" where
  "stringify JNull = ''null''"
| "stringify (JBool b) = (if b then ''true'' else ''false'')"
| "stringify (JNum n) = intToString n"
| "stringify (JStr s) = quoteString s"
| "stringify (JArr xs) = ''['' @ join '','' (stringifyElements xs) @ '']''"
| "stringify (JObj kvs) = ''{'' @ join '','' (stringifyMembers kvs) @ ''}''"
| "stringifyElements [] = []"
| "stringifyElements (x # xs) = stringify x # stringifyElements xs"
| "stringifyMembers [] = []"
| "stringifyMembers ((k, v) # kvs) = (quoteString k @ '':'' @ stringify v) # stringifyMembers kvs"

section \<open>Document validation (backend/services/DocumentExtractor.js)\<close>

record FileToUpload =
  buffer :: "8 word list"
  originalname :: string
  size' :: nat

record UploadedFile =
  name :: string
  size'' :: nat
  file_id :: string

definition isSupportedFormat :: "string \<Rightarrow> string \<Rightarrow> bool" where
  "isSupportedFormat fname mimetype =
     (let filename = toLowerCase fname in
      endsWith filename ''.pdf'' \<or> endsWith filename ''.docx'' \<or> endsWith filename ''.png''
      \<or> endsWith filename ''.jpg'' \<or> endsWith filename ''.jpeg'' \<or> endsWith filename ''.webp''
      \<or> includes_str mimetype ''pdf'' \<or> includes_str mimetype ''wordprocessingml''
      \<or> includes_str mimetype ''vnd.openxmlformats'' \<or> startsWith mimetype ''image/'')"

definition validateFile :: "8 word list \<Rightarrow> string \<Rightarrow> js_error + unit" where
  "validateFile buf fname =
     (if buf = [] then Inl (new_Error ''Fichier vide'')
      else if \<not> isSupportedFormat fname []
      then Inl (new_Error (''Format non support'' @ [CHR 0xE9] @ '': '' @ fname @ ''. ''
                 @ ''Formats accept'' @ [CHR 0xE9] @ ''s: PDF, DOCX, PNG, JPG, JPEG, WEBP''))
      else Inr ())"

section \<open>The Mistral adapter (backend/adapters/MistralAdapter.js)\<close>

text \<open>
  The provider's client is a parameter: \<open>upload\<close> stands for
  \<^verbatim>\<open>client.files.upload\<close> and answers the new file's id, \<open>del\<close> for
  \<^verbatim>\<open>client.files.delete\<close>, \<open>ocr\<close> for \<^verbatim>\<open>client.ocr.process\<close> and
  \<open>chat\<close> for \<^verbatim>\<open>client.chat.complete\<close>; each one answers or throws. The functions
  return, beside their result, the calls they made to the client.
\<close>

fun MistralAdapter_uploadLoop ::
  "(FileToUpload \<Rightarrow> js_error + string) \<Rightarrow> FileToUpload list \<Rightarrow> UploadedFile list
   \<Rightarrow> FileToUpload list \<Rightarrow> FileToUpload list \<times> (js_error + UploadedFile list)" where
  "MistralAdapter_uploadLoop upload [] results sent = (sent, Inr results)"
| "MistralAdapter_uploadLoop upload (f # fs) results sent =
     (case validateFile (buffer f) (originalname f) of
        Inl e \<Rightarrow> (sent, Inl (new_Error (''Erreur upload '' @ originalname f @ '': '' @ message e)))
      | Inr _ \<Rightarrow>
         (case upload f of
            Inl e \<Rightarrow> (sent @ [f],
                       Inl (new_Error (''Erreur upload '' @ originalname f @ '': '' @ message e)))
          | Inr uploadedId \<Rightarrow>
              MistralAdapter_uploadLoop upload fs
                (results @ [\<lparr>name = originalname f, size'' = size' f, file_id = uploadedId\<rparr>])
                (sent @ [f])))"

definition MistralAdapter_uploadFiles ::
  "(FileToUpload \<Rightarrow> js_error + string) \<Rightarrow> FileToUpload list
   \<Rightarrow> FileToUpload list \<times> (js_error + UploadedFile list)" where
  "MistralAdapter_uploadFiles upload files = (case files of
     [] \<Rightarrow> ([], Inl (new_Error ''Aucun fichier fourni''))
   | f0 # _ \<Rightarrow>
      (case validateFile (buffer f0) (originalname f0) of
         Inl e \<Rightarrow> ([], Inl e)
       | Inr _ \<Rightarrow> MistralAdapter_uploadLoop upload files [] []))"

definition MistralAdapter_deleteFile ::
  "(string \<Rightarrow> js_error + unit) \<Rightarrow> string \<Rightarrow> console_line list \<times> (js_error + unit)" where
  "MistralAdapter_deleteFile del fileId = (case del fileId of
     Inr _ \<Rightarrow> ([ConsoleLog (''[MistralAdapter] Deleting file '' @ fileId @ ''...''),
                ConsoleLog (''[MistralAdapter] File deleted: '' @ fileId)], Inr ())
   | Inl e \<Rightarrow> ([ConsoleLog (''[MistralAdapter] Deleting file '' @ fileId @ ''...''),
                ConsoleError (''[MistralAdapter] Erreur deletion '' @ fileId @ '': '' @ message e)],
               Inr ()))"

text \<open>
  The text of one element of \<^verbatim>\<open>response.contents\<close> or \<^verbatim>\<open>response.pages\<close>.
  \<open>textProp k c\<close> is \<^verbatim>\<open>c?.k\<close> when that is a non-empty string; the properties
  \<^verbatim>\<open>text\<close> and \<^verbatim>\<open>content\<close> are text-bearing: where present and truthy they
  hold a string, which \<open>textFieldsAreStrings\<close> says of the elements of a response.
\<close>

definition textProp :: "string \<Rightarrow> json \<Rightarrow> string option" where
  "textProp k c = (case getProp k c of
     Some (JStr s) \<Rightarrow> (if s = [] then None else Some s)
   | _ \<Rightarrow> None)"


definition contentsItemText :: "json \<Rightarrow> string" where
  "contentsItemText c = (case c of
     JStr s \<Rightarrow> s
   | _ \<Rightarrow> (case textProp ''text'' c of
        Some t \<Rightarrow> t
      | None \<Rightarrow> (case textProp ''content'' c of
           Some t \<Rightarrow> t
         | None \<Rightarrow> stringify c)))"

definition pagesItemText :: "nat \<Rightarrow> json \<Rightarrow> string" where
  "pagesItemText i p = (case p of
     JStr s \<Rightarrow> s
   | _ \<Rightarrow> (case textProp ''content'' p of
        Some t \<Rightarrow> t
      | None \<Rightarrow> (case textProp ''text'' p of
           Some t \<Rightarrow> t
         | None \<Rightarrow> ''[Page '' @ intToString (int i + 1) @ ''] '' @ stringify p)))"



text \<open>\<^verbatim>\<open>pages.map((p, i) => ...)\<close>: the elements with their index, from \<open>i\<close> on.\<close>

fun mapPages :: "nat \<Rightarrow> json list \<Rightarrow> string list" where
  "mapPages i [] = []"
| "mapPages i (p # ps) = pagesItemText i p # mapPages (Suc i) ps"

text \<open>
  The text recovered from a truthy OCR response, by the first format that applies;
  \<open>later\<close> is what the formats after the two of \<^verbatim>\<open>contents\<close> give.
\<close>

definition extractedText :: "json \<Rightarrow> string" where
  "extractedText response =
     (let later = (case getProp ''pages'' response of
             Some (JArr ps) \<Rightarrow> join ''\<newline>\<newline>'' (mapPages 0 ps)
           | _ \<Rightarrow> (case response of JStr s \<Rightarrow> s | _ \<Rightarrow> stringify response))
      in case getProp ''contents'' response of
           Some (JArr cs) \<Rightarrow>
             join ''\<newline>\<newline>'' (filter (\<lambda>t. t \<noteq> []) (map contentsItemText cs))
         | Some (JStr s) \<Rightarrow> (if s \<noteq> [] then s else later)
         | _ \<Rightarrow> later)"

definition MistralAdapter_extractTextFromFile ::
  "(string \<Rightarrow> js_error + json) \<Rightarrow> string \<Rightarrow> js_error + string" where
  "MistralAdapter_extractTextFromFile ocr fileId = (case ocr fileId of
     Inl e \<Rightarrow> Inl (new_Error (''Erreur OCR: '' @ message e))
   | Inr response \<Rightarrow>
      (if \<not> truthy response
       then Inl (new_Error (''Erreur OCR: '' @ ''R'' @ [CHR 0xE9] @ ''ponse OCR vide''))
       else if extractedText response = []
       then Inl (new_Error (''Erreur OCR: '' @ ''Le fichier n'a pu '' @ [CHR 0xEA] @ ''tre trait''
                  @ [CHR 0xE9] @ '' par OCR - peut-'' @ [CHR 0xEA] @ ''tre un format non support''
                  @ [CHR 0xE9] @ '' ou un fichier corrompu''))
       else Inr (extractedText response)))"

text \<open>The standardized messages, requests and responses (backend/adapters/BaseAdapter.js).\<close>

record StandardizedMessage =
  role :: string
  content :: string

record ChatRequest =
  messages :: "StandardizedMessage list"
  file_ids :: "string list"
  model :: string

record StandardizedResponse =
  content' :: string
  usage' :: "usage option"
  tokensUsed :: nat

text \<open>What \<^verbatim>\<open>client.chat.complete\<close> is called with, and what it answers.\<close>

record ChatCall =
  call_model :: string
  call_messages :: "StandardizedMessage list"
  call_maxTokens :: nat

record SdkUsage =
  totalTokens :: "nat option"
  promptTokens :: "nat option"
  completionTokens :: "nat option"

record SdkChoice =
  choice_message :: "string option option"

record SdkCompletion =
  choices :: "SdkChoice list"
  completion_usage :: "SdkUsage option"

text \<open>
  In \<open>SdkChoice\<close> the message is absent (\<open>None\<close>) or present with its content, itself
  absent or a string. The cut of an extracted text: at most 5000 code units are kept.
\<close>

definition truncated :: "string \<Rightarrow> string" where
  "truncated text =
     (if length text > 5000
      then take 5000 text @ ''\<newline>[... contenu tronqu'' @ [CHR 0xE9] @ '' ...]''
      else text)"

text \<open>
  The loop over \<^verbatim>\<open>file_ids\<close>: the context so far, the count of processed files and
  the ids handed to \<^verbatim>\<open>deleteFile\<close>.
\<close>

fun documentContextLoop ::
  "(string \<Rightarrow> js_error + json) \<Rightarrow> (string \<Rightarrow> js_error + unit) \<Rightarrow> string list
   \<Rightarrow> string \<times> nat \<times> string list \<Rightarrow> string \<times> nat \<times> string list" where
  "documentContextLoop ocr del [] acc = acc"
| "documentContextLoop ocr del (fileId # rest) (documentContext, filesProcessed, deleted) =
     (case MistralAdapter_extractTextFromFile ocr fileId of
        Inr text \<Rightarrow>
          (let documentContext' =
                 documentContext @ ''\<newline>[Fichier: '' @ fileId @ '']\<newline>'' @ truncated text
                   @ ''\<newline>''
           in case snd (MistralAdapter_deleteFile del fileId) of
                Inr _ \<Rightarrow> documentContextLoop ocr del rest
                           (documentContext', filesProcessed + 1, deleted @ [fileId])
              | Inl deleteError \<Rightarrow> documentContextLoop ocr del rest
                           (documentContext', filesProcessed + 1, deleted @ [fileId]))
      | Inl e \<Rightarrow>
          documentContextLoop ocr del rest
            (documentContext @ ''\<newline>[Fichier: '' @ fileId @ ''] - Erreur d'extraction\<newline>'',
             filesProcessed, deleted))"

definition mistralMessages ::
  "(string \<Rightarrow> js_error + json) \<Rightarrow> (string \<Rightarrow> js_error + unit) \<Rightarrow> ChatRequest
   \<Rightarrow> StandardizedMessage list \<times> string list" where
  "mistralMessages ocr del request =
     (let ms = map (\<lambda>m. \<lparr>role = role m, content = content m\<rparr>) (messages request) in
      if file_ids request \<noteq> [] then
        (case documentContextLoop ocr del (file_ids request)
                (''\<newline>\<newline>--- DOCUMENTS ATTACH'' @ [CHR 0xC9] @ ''S ---\<newline>'', 0, []) of
           (documentContext, filesProcessed, deleted) \<Rightarrow>
             (if ms \<noteq> [] \<and> role (last ms) = ''user''
              then (butlast ms @ [(last ms)\<lparr>content := content (last ms) @ documentContext\<rparr>],
                    deleted)
              else (ms, deleted)))
      else (ms, []))"

definition mistralError :: "js_error \<Rightarrow> js_error" where
  "mistralError e =
     (if status e = Some 401
      then new_Error (''Cl'' @ [CHR 0xE9] @ '' API Mistral invalide ou manquante'')
      else if status e = Some 429
      then new_Error (''Limite de taux API Mistral atteinte. Veuillez r'' @ [CHR 0xE9]
                      @ ''essayer plus tard.'')
      else if status e = Some 400
      then new_Error (''Requ'' @ [CHR 0xEA] @ ''te invalide envoy'' @ [CHR 0xE9] @ ''e ''
                      @ [CHR 0xE0] @ '' Mistral: '' @ message e)
      else new_Error (''Erreur Mistral: '' @ message e))"

record MistralEffects =
  deletedFiles :: "string list"
  chatCalls :: "ChatCall list"

definition MistralAdapter_sendChatRequest ::
  "nat \<Rightarrow> (string \<Rightarrow> js_error + json) \<Rightarrow> (string \<Rightarrow> js_error + unit)
   \<Rightarrow> (ChatCall \<Rightarrow> js_error + SdkCompletion option) \<Rightarrow> ChatRequest
   \<Rightarrow> MistralEffects \<times> (js_error + StandardizedResponse)" where
  "MistralAdapter_sendChatRequest maxTokens ocr del chat request =
     (if messages request = []
      then (\<lparr>deletedFiles = [], chatCalls = []\<rparr>,
            Inl (new_Error (''Le tableau messages est requis et ne peut pas '' @ [CHR 0xEA]
                            @ ''tre vide'')))
      else
        (case mistralMessages ocr del request of (ms, deleted) \<Rightarrow>
           (let call = \<lparr>call_model = (if model request = [] then ''mistral-large-latest''
                                          else model request),
                        call_messages = ms, call_maxTokens = maxTokens\<rparr>;
                effects = \<lparr>deletedFiles = deleted, chatCalls = [call]\<rparr>
            in case chat call of
                 Inl e \<Rightarrow> (effects, Inl (mistralError e))
               | Inr response \<Rightarrow>
                  (case (case response of None \<Rightarrow> None
                          | Some r \<Rightarrow> (case choices r of [] \<Rightarrow> None
                              | choice # _ \<Rightarrow> (case choice_message choice of None \<Rightarrow> None
                                  | Some c \<Rightarrow> Some (r, c)))) of
                     None \<Rightarrow> (effects,
                       Inl (mistralError (new_Error (''R'' @ [CHR 0xE9]
                              @ ''ponse Mistral invalide ou vide''))))
                   | Some (r, c) \<Rightarrow> (effects,
                       Inr \<lparr>content' = (case c of None \<Rightarrow> [] | Some t \<Rightarrow> t),
                            usage' = (case completion_usage r of
                               None \<Rightarrow> None
                             | Some u \<Rightarrow> Some \<lparr>input_tokens = None, output_tokens = None,
                                 prompt_tokens = Some (case promptTokens u of None \<Rightarrow> 0 | Some n \<Rightarrow> n),
                                 completion_tokens =
                                   Some (case completionTokens u of None \<Rightarrow> 0 | Some n \<Rightarrow> n),
                                 total_tokens = Some (case totalTokens u of None \<Rightarrow> 0 | Some n \<Rightarrow> n),
                                 input_tokens_details_cached_tokens = None,
                                 input_token_details_cached_tokens = None,
                                 prompt_tokens_details_cached_tokens = None\<rparr>),
                            tokensUsed = (case completion_usage r of
                               None \<Rightarrow> 0
                             | Some u \<Rightarrow> (case totalTokens u of None \<Rightarrow> 0 | Some n \<Rightarrow> n))\<rparr>)))))"

section \<open>The ChatGPT adapter (backend/adapters/ChatGPTAdapter.js)\<close>

text \<open>
  \<open>create\<close> stands for \<^verbatim>\<open>toFile\<close> followed by \<^verbatim>\<open>client.files.create\<close>;
  \<open>fileMetaById\<close> is the adapter's cache of file names and extensions. The extension is
  \<^verbatim>\<open>(name.split('.').pop() ?? '').toLowerCase()\<close>: what follows the last dot, or the
  whole name when it has none.
\<close>

definition fileExt :: "string \<Rightarrow> string" where
  "fileExt fname = toLowerCase (rev (takeWhile (\<lambda>c. c \<noteq> CHR ''.'') (rev fname)))"

fun ChatGPTAdapter_uploadLoop ::
  "(FileToUpload \<Rightarrow> js_error + string) \<Rightarrow> FileToUpload list \<Rightarrow> UploadedFile list
   \<Rightarrow> (string \<rightharpoonup> string \<times> string) \<Rightarrow> FileToUpload list
   \<Rightarrow> (string \<rightharpoonup> string \<times> string) \<times> FileToUpload list \<times> (js_error + UploadedFile list)" where
  "ChatGPTAdapter_uploadLoop create [] results fileMetaById sent =
     (fileMetaById, sent, Inr results)"
| "ChatGPTAdapter_uploadLoop create (f # fs) results fileMetaById sent =
     (case create f of
        Inl e \<Rightarrow> (fileMetaById, sent @ [f], Inl e)
      | Inr uploadedId \<Rightarrow>
          ChatGPTAdapter_uploadLoop create fs
            (results @ [\<lparr>name = originalname f, size'' = size' f, file_id = uploadedId\<rparr>])
            (fileMetaById(uploadedId \<mapsto> (originalname f, fileExt (originalname f))))
            (sent @ [f]))"

definition ChatGPTAdapter_uploadFiles ::
  "(FileToUpload \<Rightarrow> js_error + string) \<Rightarrow> (string \<rightharpoonup> string \<times> string) \<Rightarrow> FileToUpload list
   \<Rightarrow> (string \<rightharpoonup> string \<times> string) \<times> FileToUpload list \<times> (js_error + UploadedFile list)" where
  "ChatGPTAdapter_uploadFiles create fileMetaById files =
     (if files = []
      then (fileMetaById, [], Inl (new_Error (''Aucun fichier '' @ [CHR 0xE0] @ '' uploader'')))
      else ChatGPTAdapter_uploadLoop create files [] fileMetaById [])"

text \<open>
  The class body declares \<^verbatim>\<open>deleteFile\<close> twice. The first declaration calls the
  client and ignores a failure; the second one throws. A class keeps, of two methods of the
  same name, the one declared last.
\<close>

definition ChatGPTAdapter_deleteFile_first ::
  "(string \<Rightarrow> js_error + unit) \<Rightarrow> (string \<rightharpoonup> string \<times> string) \<Rightarrow> string
   \<Rightarrow> (string \<rightharpoonup> string \<times> string) \<times> (js_error + unit)" where
  "ChatGPTAdapter_deleteFile_first del fileMetaById fileId = (case del fileId of
     Inr _ \<Rightarrow> (fileMetaById(fileId := None), Inr ())
   | Inl e \<Rightarrow> (fileMetaById, Inr ()))"

definition ChatGPTAdapter_deleteFile_second ::
  "(string \<Rightarrow> js_error + unit) \<Rightarrow> (string \<rightharpoonup> string \<times> string) \<Rightarrow> string
   \<Rightarrow> (string \<rightharpoonup> string \<times> string) \<times> (js_error + unit)" where
  "ChatGPTAdapter_deleteFile_second del fileMetaById fileId =
     (fileMetaById,
      Inl (new_Error (''ChatGPTAdapter: La suppression de fichiers n'est pas support'' @ [CHR 0xE9]
                      @ ''e par OpenAI'')))"

definition ChatGPTAdapter_deleteFile ::
  "(string \<Rightarrow> js_error + unit) \<Rightarrow> (string \<rightharpoonup> string \<times> string) \<Rightarrow> string
   \<Rightarrow> (string \<rightharpoonup> string \<times> string) \<times> (js_error + unit)" where
  "ChatGPTAdapter_deleteFile =
     last [ChatGPTAdapter_deleteFile_first, ChatGPTAdapter_deleteFile_second]"


section \<open>The users table (backend/db.ts)\<close>

text \<open>
  A row of \<^verbatim>\<open>dbo.users\<close>, each column a value or \<^verbatim>\<open>NULL\<close>, and the table as a
  map from the user name. A new row takes the defaults of the table's declaration. The
  database is reachable: a query answers, it does not throw. The amount an update adds is
  its argument: the SQL types the arguments are bound with (\<^verbatim>\<open>sql.Int\<close>,
  \<^verbatim>\<open>sql.Decimal(18, 4)\<close>) are not modelled.
\<close>

record user_row =
  canUseApp :: "int option"
  canImportFiles :: "int option"
  totalRequests :: "int option"
  totalRequestsWithFiles :: "int option"
  totalTokens :: "int option"
  totalCost :: "real option"
  maxCost :: "real option"

type_synonym users = "string \<rightharpoonup> user_row"

definition ISNULL :: "'a option \<Rightarrow> 'a \<Rightarrow> 'a" where
  "ISNULL v d = (case v of None \<Rightarrow> d | Some x \<Rightarrow> x)"

definition defaultRow :: user_row where
  "defaultRow = \<lparr>canUseApp = Some 0, canImportFiles = Some 0, totalRequests = Some 0,
     totalRequestsWithFiles = Some 0, totalTokens = Some 0, totalCost = Some 0,
     maxCost = Some 2\<rparr>"

definition ensureUserExists :: "string \<Rightarrow> users \<Rightarrow> users" where
  "ensureUserExists user_name db =
     (case db user_name of None \<Rightarrow> db(user_name \<mapsto> defaultRow) | Some row \<Rightarrow> db)"

definition addRequest :: "string \<Rightarrow> users \<Rightarrow> users" where
  "addRequest user_name db = (case db user_name of
     None \<Rightarrow> db
   | Some row \<Rightarrow> db(user_name \<mapsto> row\<lparr>totalRequests := Some (ISNULL (totalRequests row) 0 + 1)\<rparr>))"

definition addRequestWithFiles :: "string \<Rightarrow> users \<Rightarrow> users" where
  "addRequestWithFiles user_name db = (case db user_name of
     None \<Rightarrow> db
   | Some row \<Rightarrow> db(user_name \<mapsto>
       row\<lparr>totalRequestsWithFiles := Some (ISNULL (totalRequestsWithFiles row) 0 + 1)\<rparr>))"

definition addTokens :: "string \<Rightarrow> nat \<Rightarrow> users \<Rightarrow> users" where
  "addTokens user_name tokens_to_add db = (case db user_name of
     None \<Rightarrow> db
   | Some row \<Rightarrow> db(user_name \<mapsto>
       row\<lparr>totalTokens := map_option (\<lambda>t. t + int tokens_to_add) (totalTokens row)\<rparr>))"

definition addCost :: "string \<Rightarrow> real \<Rightarrow> users \<Rightarrow> users" where
  "addCost user_name cost_to_add db = (case db user_name of
     None \<Rightarrow> db
   | Some row \<Rightarrow> db(user_name \<mapsto>
       row\<lparr>totalCost := map_option (\<lambda>c. c + cost_to_add) (totalCost row)\<rparr>))"

definition getTotalTokens :: "string \<Rightarrow> users \<Rightarrow> int" where
  "getTotalTokens user_name db = (case db user_name of
     None \<Rightarrow> 0
   | Some row \<Rightarrow> ISNULL (totalTokens row) 0)"

definition getTotalCost :: "string \<Rightarrow> users \<Rightarrow> jsnum" where
  "getTotalCost user_name db = (case db user_name of
     None \<Rightarrow> Num 0
   | Some row \<Rightarrow> Num (ISNULL (totalCost row) 0))"

definition getCostLimit :: "string \<Rightarrow> users \<Rightarrow> jsnum" where
  "getCostLimit user_name db = (case db user_name of
     None \<Rightarrow> Num 2
   | Some row \<Rightarrow> Num (ISNULL (maxCost row) 2))"

section \<open>The chat service (backend/services/ChatService.js)\<close>

text \<open>
  The raw request of the front end (\<^verbatim>\<open>RawChatRequest\<close> in backend/types.d.ts): each
  field may be missing; a message's content is a string, an array of parts (strings, or
  objects with an optional \<^verbatim>\<open>text\<close>) or anything else.
\<close>

datatype RawPart = PartString string | PartObject (part_text: "string option") (part_type: "string option")

datatype RawContent = ContentString string | ContentParts "RawPart list" | ContentOther

record RawMessage =
  raw_role :: "string option"
  raw_content :: RawContent

record RawChatRequest =
  prompt :: "string option"
  raw_messages :: "RawMessage list option"
  raw_file_ids :: "string list option"

record ServiceChatResponse =
  content'' :: string
  usage'' :: "usage option"
  cost :: real
  limitReached :: bool

definition partText :: "RawPart \<Rightarrow> string" where
  "partText c = (case c of
     PartString s \<Rightarrow> s
   | PartObject t ty \<Rightarrow> (case t of None \<Rightarrow> [] | Some s \<Rightarrow> s))"

definition messageText :: "RawContent \<Rightarrow> string" where
  "messageText c = (case c of
     ContentString s \<Rightarrow> s
   | ContentParts parts \<Rightarrow> join ''\<newline>'' (filter (\<lambda>t. t \<noteq> []) (map partText parts))
   | ContentOther \<Rightarrow> [])"

definition normalizeRequest :: "RawChatRequest \<Rightarrow> string \<Rightarrow> js_error + ChatRequest" where
  "normalizeRequest rawRequest mdl =
     (let ids = (case raw_file_ids rawRequest of None \<Rightarrow> [] | Some fs \<Rightarrow> fs);
          legacy = (case prompt rawRequest of
             None \<Rightarrow> Inl (new_Error (''Ni prompt ni messages n'ont '' @ [CHR 0xE9] @ ''t''
                                     @ [CHR 0xE9] @ '' fournis''))
           | Some p \<Rightarrow>
               if p \<noteq> []
               then Inr \<lparr>messages = [\<lparr>role = ''user'', content = p\<rparr>],
                         file_ids = ids, model = mdl\<rparr>
               else Inl (new_Error (''Ni prompt ni messages n'ont '' @ [CHR 0xE9] @ ''t''
                                    @ [CHR 0xE9] @ '' fournis'')))
      in case raw_messages rawRequest of
           None \<Rightarrow> legacy
         | Some ms \<Rightarrow>
             if ms \<noteq> []
             then Inr \<lparr>messages =
                         map (\<lambda>m. \<lparr>role = (case raw_role m of None \<Rightarrow> ''user''
                                              | Some r \<Rightarrow> if r = [] then ''user'' else r),
                                   content = messageText (raw_content m)\<rparr>) ms,
                       file_ids = ids, model = mdl\<rparr>
             else legacy)"

text \<open>
  The calls the service makes to its collaborators, in order, and the state they act on.
  The adapter is the service's configured one, a parameter; \<open>costLimit\<close> is the ceiling
  given at construction.
\<close>

datatype call =
  EnsureUserExists string
| AddRequest string
| AddRequestWithFiles string
| GetTotalCost string
| GetCostLimit string
| SendChatRequest ChatRequest
| AddTokens string nat
| AddCost string real

record world =
  db :: users
  calls :: "call list"

definition hasFiles :: "RawChatRequest \<Rightarrow> bool" where
  "hasFiles rawRequest = (case raw_file_ids rawRequest of None \<Rightarrow> False | Some fs \<Rightarrow> fs \<noteq> [])"

definition effectiveLimit :: "jsnum \<Rightarrow> jsnum \<Rightarrow> jsnum" where
  "effectiveLimit costLimit userCostLimit =
     (if isFinite userCostLimit then userCostLimit else costLimit)"

definition processChatRequest ::
  "env \<Rightarrow> jsnum \<Rightarrow> (ChatRequest \<Rightarrow> js_error + StandardizedResponse) \<Rightarrow> string
   \<Rightarrow> RawChatRequest \<Rightarrow> string \<Rightarrow> world \<Rightarrow> world \<times> (js_error + ServiceChatResponse)" where
  "processChatRequest env costLimit adapter username rawRequest mdl w0 =
     (let w1 = \<lparr>db = ensureUserExists username (db w0),
                 calls = calls w0 @ [EnsureUserExists username]\<rparr>;
          w2 = \<lparr>db = addRequest username (db w1), calls = calls w1 @ [AddRequest username]\<rparr>;
          w3 = (if hasFiles rawRequest
                then \<lparr>db = addRequestWithFiles username (db w2),
                      calls = calls w2 @ [AddRequestWithFiles username]\<rparr>
                else w2);
          totalCost = getTotalCost username (db w3);
          userCostLimit = getCostLimit username (db w3);
          w4 = \<lparr>db = db w3, calls = calls w3 @ [GetTotalCost username, GetCostLimit username]\<rparr>
      in if js_ge totalCost (effectiveLimit costLimit userCostLimit)
         then (w4, Inr \<lparr>content'' = [], usage'' = None, cost = 0, limitReached = True\<rparr>)
         else (case normalizeRequest rawRequest mdl of
            Inl e \<Rightarrow> (w4, Inl e)
          | Inr processedRequest \<Rightarrow>
             (let w5 = \<lparr>db = db w4, calls = calls w4 @ [SendChatRequest processedRequest]\<rparr>
              in case adapter processedRequest of
                   Inl e \<Rightarrow> (w5, Inl e)
                 | Inr response \<Rightarrow>
                    (let c = computeCostFromUsage env (usage' response) (Some mdl);
                         w6 = (if tokensUsed response \<noteq> 0
                               then \<lparr>db = addTokens username (tokensUsed response) (db w5),
                                     calls = calls w5 @ [AddTokens username (tokensUsed response)]\<rparr>
                               else w5);
                         w7 = \<lparr>db = addCost username c (db w6),
                                 calls = calls w6 @ [AddCost username c]\<rparr>
                     in (w7, Inr \<lparr>content'' = content' response, usage'' = usage' response,
                                  cost = c, limitReached = False\<rparr>)))))"

text \<open>
  What a test double of the adapter counts (the requests it was sent) and the token and
  cost bookkeeping calls, read off the trace.
\<close>

fun adapterCalls :: "call list \<Rightarrow> ChatRequest list" where
  "adapterCalls [] = []"
| "adapterCalls (SendChatRequest r # cs) = r # adapterCalls cs"
| "adapterCalls (c # cs) = adapterCalls cs"

fun bookkeepingCalls :: "call list \<Rightarrow> call list" where
  "bookkeepingCalls [] = []"
| "bookkeepingCalls (AddTokens u n # cs) = AddTokens u n # bookkeepingCalls cs"
| "bookkeepingCalls (AddCost u c # cs) = AddCost u c # bookkeepingCalls cs"
| "bookkeepingCalls (c # cs) = bookkeepingCalls cs"

text \<open>
  The request is counted for \<open>u\<close>: from the table \<open>d\<close> to the table \<open>d'\<close> the
  user's row exists, \<^verbatim>\<open>totalRequests\<close> went up by one and
  \<^verbatim>\<open>totalRequestsWithFiles\<close> went up by one when the request carried files.
\<close>

definition requestCounted :: "string \<Rightarrow> bool \<Rightarrow> users \<Rightarrow> users \<Rightarrow> bool" where
  "requestCounted u files d d' =
     (let row0 = (case d u of None \<Rightarrow> defaultRow | Some r \<Rightarrow> r) in
      \<exists>row'. d' u = Some row'
        \<and> totalRequests row' = Some (ISNULL (totalRequests row0) 0 + 1)
        \<and> totalRequestsWithFiles row' =
            (if files then Some (ISNULL (totalRequestsWithFiles row0) 0 + 1)
             else totalRequestsWithFiles row0))"

section \<open>Example inputs\<close>

definition usageChat :: usage where
  "usageChat = \<lparr>input_tokens = None, output_tokens = None, prompt_tokens = Some 20,
     completion_tokens = Some 10, total_tokens = Some 30,
     input_tokens_details_cached_tokens = None, input_token_details_cached_tokens = None,
     prompt_tokens_details_cached_tokens = None\<rparr>"

definition usageBothShapes :: usage where
  "usageBothShapes = \<lparr>input_tokens = Some 12, output_tokens = Some 7, prompt_tokens = Some 10,
     completion_tokens = Some 5, total_tokens = Some 19,
     input_tokens_details_cached_tokens = None, input_token_details_cached_tokens = None,
     prompt_tokens_details_cached_tokens = None\<rparr>"


definition rowAtCeiling :: user_row where
  "rowAtCeiling = \<lparr>canUseApp = Some 1, canImportFiles = Some 1, totalRequests = Some 7,
     totalRequestsWithFiles = Some 2, totalTokens = Some 90000, totalCost = Some 2,
     maxCost = Some 2\<rparr>"

definition worldAtCeiling :: world where
  "worldAtCeiling = \<lparr>db = [''tbo'' \<mapsto> rowAtCeiling], calls = []\<rparr>"

definition worldNewUser :: world where
  "worldNewUser = \<lparr>db = Map.empty, calls = []\<rparr>"

definition requestHello :: RawChatRequest where
  "requestHello = \<lparr>prompt = Some ''hello'', raw_messages = None, raw_file_ids = None\<rparr>"

definition requestNoInput :: RawChatRequest where
  "requestNoInput = \<lparr>prompt = None, raw_messages = Some [], raw_file_ids = Some [''file-1'']\<rparr>"

definition adapterAnswers :: "ChatRequest \<Rightarrow> js_error + StandardizedResponse" where
  "adapterAnswers request =
     Inr \<lparr>content' = ''hi there'', usage' = Some usageChat, tokensUsed = 30\<rparr>"

text \<open>The Mistral adapter over a client whose chat endpoint answers 429.\<close>

definition adapterRateLimited :: "ChatRequest \<Rightarrow> js_error + StandardizedResponse" where
  "adapterRateLimited request =
     snd (MistralAdapter_sendChatRequest 4096 (\<lambda>fileId. Inl (JsError (Some 404) ''Not Found''))
            (\<lambda>fileId. Inr ()) (\<lambda>call. Inl (JsError (Some 429) ''Too Many Requests''))
            request)"

definition filePdf :: FileToUpload where
  "filePdf = \<lparr>buffer = [37, 80, 68, 70], originalname = ''Rapport.PDF'', size' = 4\<rparr>"

definition fileEmpty :: FileToUpload where
  "fileEmpty = \<lparr>buffer = [], originalname = ''vide.pdf'', size' = 0\<rparr>"

definition fileTxt :: FileToUpload where
  "fileTxt = \<lparr>buffer = [104, 105], originalname = ''notes.txt'', size' = 2\<rparr>"

definition uploadAccepts :: "FileToUpload \<Rightarrow> js_error + string" where
  "uploadAccepts f = Inr (''id-'' @ originalname f)"

definition uploadRejectsTxt :: "FileToUpload \<Rightarrow> js_error + string" where
  "uploadRejectsTxt f =
     (if endsWith (originalname f) ''.txt'' then Inl (JsError (Some 400) ''Invalid file format.'')
      else Inr (''id-'' @ originalname f))"



definition ocrLong :: "string \<Rightarrow> js_error + json" where
  "ocrLong fileId =
     (if fileId = ''file-long'' then Inr (JObj [(''contents'', JStr (replicate 5003 CHR ''a''))])
      else if fileId = ''file-short'' then Inr (JObj [(''contents'', JStr ''short text'')])
      else Inl (JsError (Some 404) ''File not found''))"

definition requestWithFiles :: ChatRequest where
  "requestWithFiles = \<lparr>messages = [\<lparr>role = ''system'', content = ''Be brief.''\<rparr>,
                                      \<lparr>role = ''user'', content = ''Summarise.''\<rparr>],
     file_ids = [''file-long'', ''file-short'', ''file-gone''], model = ''mistral-small''\<rparr>"

section \<open>Properties of the pricing calculator\<close>

lemma toFixed6_nonneg: "0 \<le> x \<Longrightarrow> 0 \<le> toFixed6 x"
  by (simp add: toFixed6_def Let_def)

lemma Number0_nonneg: "0 \<le> Number0 v"
  by (simp add: Number0_def split: option.splits)

lemma js_or_nonneg: "0 \<le> a \<Longrightarrow> 0 \<le> b \<Longrightarrow> 0 \<le> js_or a b"
  by (simp add: js_or_def)

lemma extractUsage_input_nonneg: "0 \<le> input (extractUsage usage)"
  by (cases usage) (simp_all add: extractUsage_def Let_def js_or_nonneg Number0_nonneg)

lemma extractUsage_output_nonneg: "0 \<le> output' (extractUsage usage)"
  by (cases usage) (simp_all add: extractUsage_def Let_def js_or_nonneg Number0_nonneg)

lemma extractUsage_clamp:
  "0 \<le> cached (extractUsage usage) \<and> cached (extractUsage usage) \<le> input (extractUsage usage)
   \<and> 0 \<le> nonCached (extractUsage usage)
   \<and> nonCached (extractUsage usage) = input (extractUsage usage) - cached (extractUsage usage)"
proof (cases usage)
  case None
  then show ?thesis by (simp add: extractUsage_def)
next
  case (Some u)
  define inp where "inp = js_or (js_or (Number0 (input_tokens u)) (Number0 (prompt_tokens u))) 0"
  have "0 \<le> inp" unfolding inp_def by (simp add: js_or_nonneg Number0_nonneg)
  then show ?thesis using Some
    by (simp add: extractUsage_def Let_def inp_def[symmetric])
qed


lemma pricesNonNegative_key:
  assumes "pricesNonNegative env"
  shows "0 \<le> price_in (DEFAULT_PRICING env key) \<and> 0 \<le> price_out (DEFAULT_PRICING env key)
       \<and> (price_cache (DEFAULT_PRICING env key) = Some c \<longrightarrow> 0 \<le> c)"
  using assms by (cases key) (auto simp: pricesNonNegative_def)

lemma pricesNonNegative_default: "pricesNonNegative Map.empty"
  by (simp add: pricesNonNegative_def DEFAULT_PRICING_def env_number_def)

lemma computeCostFromUsage_nonneg:
  assumes "pricesNonNegative env"
  shows "0 \<le> computeCostFromUsage env usage mdl"
proof (cases "resolveModelKey mdl")
  case None
  then show ?thesis by (simp add: computeCostFromUsage_def)
next
  case (Some key)
  let ?p = "DEFAULT_PRICING env key"
  let ?u = "extractUsage usage"
  have pin: "0 \<le> USD_PER_MILLION (price_in ?p)" and pout: "0 \<le> USD_PER_MILLION (price_out ?p)"
    using pricesNonNegative_key[OF assms, of key] by (simp_all add: USD_PER_MILLION_def)
  have u: "0 \<le> (of_int (input ?u) :: real)" "0 \<le> (of_int (output' ?u) :: real)"
     "0 \<le> (of_int (cached ?u) :: real)" "0 \<le> (of_int (nonCached ?u) :: real)"
    using extractUsage_clamp[of usage] extractUsage_input_nonneg[of usage]
      extractUsage_output_nonneg[of usage] by simp_all
  show ?thesis
  proof (cases "price_cache ?p")
    case None
    then show ?thesis using Some pin pout u
      by (simp add: computeCostFromUsage_def Let_def toFixed6_nonneg)
  next
    case (Some c)
    then have "0 \<le> USD_PER_MILLION c"
      using pricesNonNegative_key[OF assms, of key c] by (simp add: USD_PER_MILLION_def)
    then show ?thesis using Some \<open>resolveModelKey mdl = Some key\<close> pin pout u
      by (simp add: computeCostFromUsage_def Let_def toFixed6_nonneg)
  qed
qed

lemma resolveModelKey_no_pattern:
  assumes "\<not> startsWith (trim (toLowerCase m)) ''gpt-5''"
    and "\<not> startsWith (trim (toLowerCase m)) ''gpt-4o-mini''"
    and "\<not> includes_str (trim (toLowerCase m)) ''mistral-small''"
    and "\<not> includes_str (trim (toLowerCase m)) ''mistral-tiny''"
    and "\<not> includes_str (trim (toLowerCase m)) ''mistral-medium''"
    and "\<not> includes_str (trim (toLowerCase m)) ''mistral-large''"
  shows "resolveModelKey (Some m) = None"
  using assms by (simp add: resolveModelKey_def Let_def)

text \<open>
  C2. For every usage object and every model string, \<open>computeCostFromUsage\<close> returns a
  number that is not negative (the rates of the table being non-negative, as the defaults
  are), returns the same number for the same input, and returns exactly 0 when the model
  string, lower-cased and trimmed, matches none of the known patterns.
\<close>

theorem computeCostFromUsage_nonneg_deterministic_zero:
  "(pricesNonNegative env \<longrightarrow> 0 \<le> computeCostFromUsage env usage mdl)
   \<and> (usage2 = usage \<and> mdl2 = mdl
        \<longrightarrow> computeCostFromUsage env usage2 mdl2 = computeCostFromUsage env usage mdl)
   \<and> (\<not> startsWith (trim (toLowerCase m)) ''gpt-5''
        \<and> \<not> startsWith (trim (toLowerCase m)) ''gpt-4o-mini''
        \<and> \<not> includes_str (trim (toLowerCase m)) ''mistral-small''
        \<and> \<not> includes_str (trim (toLowerCase m)) ''mistral-tiny''
        \<and> \<not> includes_str (trim (toLowerCase m)) ''mistral-medium''
        \<and> \<not> includes_str (trim (toLowerCase m)) ''mistral-large''
        \<longrightarrow> computeCostFromUsage env usage (Some m) = 0)"
proof (intro conjI impI)
  assume "pricesNonNegative env"
  then show "0 \<le> computeCostFromUsage env usage mdl" by (rule computeCostFromUsage_nonneg)
next
  assume "usage2 = usage \<and> mdl2 = mdl"
  then show "computeCostFromUsage env usage2 mdl2 = computeCostFromUsage env usage mdl" by simp
next
  assume "\<not> startsWith (trim (toLowerCase m)) ''gpt-5''
        \<and> \<not> startsWith (trim (toLowerCase m)) ''gpt-4o-mini''
        \<and> \<not> includes_str (trim (toLowerCase m)) ''mistral-small''
        \<and> \<not> includes_str (trim (toLowerCase m)) ''mistral-tiny''
        \<and> \<not> includes_str (trim (toLowerCase m)) ''mistral-medium''
        \<and> \<not> includes_str (trim (toLowerCase m)) ''mistral-large''"
  then have "resolveModelKey (Some m) = None" by (simp add: resolveModelKey_no_pattern)
  then show "computeCostFromUsage env usage (Some m) = 0" by (simp add: computeCostFromUsage_def)
qed

theorem computeCostFromUsage_nonneg_deterministic_zero_witness:
  "pricesNonNegative Map.empty
   \<and> 0 \<le> computeCostFromUsage Map.empty (Some usageChat) (Some ''Mistral-Small-Latest'')
   \<and> computeCostFromUsage Map.empty (Some usageChat) (Some ''Mistral-Small-Latest'') = 5 / 1000000
   \<and> \<not> startsWith (trim (toLowerCase ''claude-3'')) ''gpt-5''
   \<and> \<not> includes_str (trim (toLowerCase ''claude-3'')) ''mistral-small''
   \<and> computeCostFromUsage Map.empty (Some usageChat) (Some ''claude-3'') = 0"
proof -
  have none: "\<not> startsWith (trim (toLowerCase ''claude-3'')) ''gpt-5''
        \<and> \<not> startsWith (trim (toLowerCase ''claude-3'')) ''gpt-4o-mini''
        \<and> \<not> includes_str (trim (toLowerCase ''claude-3'')) ''mistral-small''
        \<and> \<not> includes_str (trim (toLowerCase ''claude-3'')) ''mistral-tiny''
        \<and> \<not> includes_str (trim (toLowerCase ''claude-3'')) ''mistral-medium''
        \<and> \<not> includes_str (trim (toLowerCase ''claude-3'')) ''mistral-large''"
    by (simp add: trim_def toLowerCase_def toLowerChar_def isWhiteSpace_def)
  have val: "computeCostFromUsage Map.empty (Some usageChat) (Some ''Mistral-Small-Latest'')
      = 5 / 1000000"
    by code_simp
  from computeCostFromUsage_nonneg_deterministic_zero
    [of Map.empty "Some usageChat" "Some ''Mistral-Small-Latest''" _ _ "''claude-3''"]
    pricesNonNegative_default none val
  show ?thesis by simp
qed

text \<open>
  C3, as stated, fails: a usage object that carries both naming shapes, with
  \<^verbatim>\<open>input_tokens\<close> and \<^verbatim>\<open>output_tokens\<close> equal to 0, is read through its
  \<^verbatim>\<open>prompt_tokens\<close> and \<^verbatim>\<open>completion_tokens\<close>.
\<close>

theorem extractUsage_zero_falls_back_counterexample:
  "input (extractUsage (Some \<lparr>input_tokens = Some 0, output_tokens = Some 0,
       prompt_tokens = Some 10, completion_tokens = Some 5, total_tokens = Some 15,
       input_tokens_details_cached_tokens = None, input_token_details_cached_tokens = None,
       prompt_tokens_details_cached_tokens = None\<rparr>)) = 10
   \<and> output' (extractUsage (Some \<lparr>input_tokens = Some 0, output_tokens = Some 0,
       prompt_tokens = Some 10, completion_tokens = Some 5, total_tokens = Some 15,
       input_tokens_details_cached_tokens = None, input_token_details_cached_tokens = None,
       prompt_tokens_details_cached_tokens = None\<rparr>)) = 5"
  by (simp add: extractUsage_def Let_def js_or_def Number0_def)

text \<open>
  C3, amended. For every usage object, field by field: an \<^verbatim>\<open>input_tokens\<close>
  (\<^verbatim>\<open>output_tokens\<close>) that is present and not 0 is the input (output) count, whatever
  \<^verbatim>\<open>prompt_tokens\<close> (\<^verbatim>\<open>completion_tokens\<close>) says; one that is 0 or absent gives way
  to \<^verbatim>\<open>prompt_tokens\<close> (\<^verbatim>\<open>completion_tokens\<close>).
\<close>

theorem extractUsage_prefers_nonzero_input_output:
  "(input_tokens u = Some a \<and> a \<noteq> 0 \<longrightarrow> input (extractUsage (Some u)) = int a)
   \<and> (output_tokens u = Some b \<and> b \<noteq> 0 \<longrightarrow> output' (extractUsage (Some u)) = int b)
   \<and> (input_tokens u = Some 0 \<or> input_tokens u = None
        \<longrightarrow> input (extractUsage (Some u)) = Number0 (prompt_tokens u))
   \<and> (output_tokens u = Some 0 \<or> output_tokens u = None
        \<longrightarrow> output' (extractUsage (Some u)) = Number0 (completion_tokens u))"
  by (auto simp: extractUsage_def Let_def js_or_def Number0_def)

theorem extractUsage_prefers_nonzero_input_output_witness:
  "input_tokens usageBothShapes = Some 12 \<and> output_tokens usageBothShapes = Some 7
   \<and> prompt_tokens usageBothShapes = Some 10 \<and> completion_tokens usageBothShapes = Some 5
   \<and> input (extractUsage (Some usageBothShapes)) = 12
   \<and> output' (extractUsage (Some usageBothShapes)) = 7"
proof -
  have f: "input_tokens usageBothShapes = Some 12 \<and> output_tokens usageBothShapes = Some 7
     \<and> prompt_tokens usageBothShapes = Some 10 \<and> completion_tokens usageBothShapes = Some 5"
    by (simp add: usageBothShapes_def)
  from extractUsage_prefers_nonzero_input_output[of usageBothShapes 12 7] f
  show ?thesis by simp
qed



section \<open>Properties of the adapters\<close>

lemma MistralAdapter_deleteFile_never_raises:
  "snd (MistralAdapter_deleteFile del fileId) = Inr ()"
  by (simp add: MistralAdapter_deleteFile_def split: sum.splits)

lemma MistralAdapter_deleteFile_failure_logged:
  "del fileId = Inl e \<Longrightarrow>
   ConsoleError (''[MistralAdapter] Erreur deletion '' @ fileId @ '': '' @ message e)
     \<in> set (fst (MistralAdapter_deleteFile del fileId))"
  by (simp add: MistralAdapter_deleteFile_def)

text \<open>
  C5. \<open>deleteFile\<close> never raises to its caller, for every adapter variant and file id.
  The Mistral variant never does (the two lemmas above); the ChatGPT variant, whose class
  keeps the second of its two \<^verbatim>\<open>deleteFile\<close> declarations, raises on a file that
  the provider would delete.
\<close>

theorem ChatGPTAdapter_deleteFile_raises:
  "snd (ChatGPTAdapter_deleteFile (\<lambda>fileId. Inr ()) Map.empty ''file-abc'')
     = Inl (new_Error (''ChatGPTAdapter: La suppression de fichiers n'est pas support''
                        @ [CHR 0xE9] @ ''e par OpenAI''))
   \<and> snd (ChatGPTAdapter_deleteFile_first (\<lambda>fileId. Inr ()) Map.empty ''file-abc'') = Inr ()"
  by (simp add: ChatGPTAdapter_deleteFile_def ChatGPTAdapter_deleteFile_second_def
      ChatGPTAdapter_deleteFile_first_def)



lemma extractedText_unknown_object:
  "map_of kvs ''contents'' = None \<Longrightarrow> map_of kvs ''pages'' = None \<Longrightarrow>
   extractedText (JObj kvs) = stringify (JObj kvs)"
  by (simp add: extractedText_def Let_def)




lemma MistralAdapter_uploadLoop_prefix:
  assumes "list_all (\<lambda>g. validateFile (buffer g) (originalname g) = Inr () \<and> \<not> isl (upload g)) pre"
  shows "\<exists>results'. MistralAdapter_uploadLoop upload (pre @ rest) results sent
         = MistralAdapter_uploadLoop upload rest results' (sent @ pre)"
  using assms
proof (induction pre arbitrary: results sent)
  case Nil
  then show ?case by auto
next
  case (Cons g pre)
  then obtain i where i: "upload g = Inr i" by (cases "upload g") auto
  have v: "validateFile (buffer g) (originalname g) = Inr ()" using Cons.prems by simp
  have "list_all (\<lambda>g. validateFile (buffer g) (originalname g) = Inr () \<and> \<not> isl (upload g)) pre"
    using Cons.prems by simp
  from Cons.IH[OF this, of "results @ [\<lparr>name = originalname g, size'' = size' g, file_id = i\<rparr>]"
      "sent @ [g]"]
  show ?case using i v by simp
qed

lemma MistralAdapter_uploadLoop_abort_invalid:
  assumes "list_all (\<lambda>g. validateFile (buffer g) (originalname g) = Inr () \<and> \<not> isl (upload g)) pre"
    and "validateFile (buffer f) (originalname f) = Inl e"
  shows "MistralAdapter_uploadLoop upload (pre @ f # post) results sent
         = (sent @ pre, Inl (new_Error (''Erreur upload '' @ originalname f @ '': '' @ message e)))"
proof -
  from MistralAdapter_uploadLoop_prefix[OF assms(1), of "f # post" results sent]
  obtain results' where "MistralAdapter_uploadLoop upload (pre @ f # post) results sent
         = MistralAdapter_uploadLoop upload (f # post) results' (sent @ pre)" by blast
  then show ?thesis using assms(2) by simp
qed

lemma MistralAdapter_uploadLoop_abort_upload:
  assumes "list_all (\<lambda>g. validateFile (buffer g) (originalname g) = Inr () \<and> \<not> isl (upload g)) pre"
    and "validateFile (buffer f) (originalname f) = Inr ()" and "upload f = Inl e"
  shows "MistralAdapter_uploadLoop upload (pre @ f # post) results sent
         = (sent @ pre @ [f],
            Inl (new_Error (''Erreur upload '' @ originalname f @ '': '' @ message e)))"
proof -
  from MistralAdapter_uploadLoop_prefix[OF assms(1), of "f # post" results sent]
  obtain results' where "MistralAdapter_uploadLoop upload (pre @ f # post) results sent
         = MistralAdapter_uploadLoop upload (f # post) results' (sent @ pre)" by blast
  then show ?thesis using assms(2,3) by simp
qed

lemma MistralAdapter_uploadFiles_abort_invalid:
  assumes "list_all (\<lambda>g. validateFile (buffer g) (originalname g) = Inr () \<and> \<not> isl (upload g)) pre"
    and "validateFile (buffer f) (originalname f) = Inl e"
  shows "MistralAdapter_uploadFiles upload (pre @ f # post)
         = (pre, Inl (if pre = [] then e
                      else new_Error (''Erreur upload '' @ originalname f @ '': '' @ message e)))"
proof (cases pre)
  case Nil
  then show ?thesis using assms(2) by (simp add: MistralAdapter_uploadFiles_def)
next
  case (Cons g gs)
  then have "validateFile (buffer g) (originalname g) = Inr ()" using assms(1) by simp
  then show ?thesis
    using Cons MistralAdapter_uploadLoop_abort_invalid[OF assms, of post "[]" "[]"]
    by (simp add: MistralAdapter_uploadFiles_def)
qed

lemma MistralAdapter_uploadFiles_abort_upload:
  assumes "list_all (\<lambda>g. validateFile (buffer g) (originalname g) = Inr () \<and> \<not> isl (upload g)) pre"
    and "validateFile (buffer f) (originalname f) = Inr ()" and "upload f = Inl e"
  shows "MistralAdapter_uploadFiles upload (pre @ f # post)
         = (pre @ [f], Inl (new_Error (''Erreur upload '' @ originalname f @ '': '' @ message e)))"
proof (cases pre)
  case Nil
  then show ?thesis
    using assms(2,3) MistralAdapter_uploadLoop_abort_upload[OF assms, of post "[]" "[]"]
    by (simp add: MistralAdapter_uploadFiles_def)
next
  case (Cons g gs)
  then have "validateFile (buffer g) (originalname g) = Inr ()" using assms(1) by simp
  then show ?thesis
    using Cons MistralAdapter_uploadLoop_abort_upload[OF assms, of post "[]" "[]"]
    by (simp add: MistralAdapter_uploadFiles_def)
qed

lemma ChatGPTAdapter_uploadLoop_prefix:
  assumes "list_all (\<lambda>g. \<not> isl (create g)) pre"
  shows "\<exists>results' meta'. ChatGPTAdapter_uploadLoop create (pre @ rest) results meta sent
         = ChatGPTAdapter_uploadLoop create rest results' meta' (sent @ pre)
         \<and> map name results' = map name results @ map originalname pre"
  using assms
proof (induction pre arbitrary: results meta sent)
  case Nil
  then show ?case by auto
next
  case (Cons g pre)
  then obtain i where i: "create g = Inr i" by (cases "create g") auto
  have "list_all (\<lambda>g. \<not> isl (create g)) pre" using Cons.prems by simp
  from Cons.IH[OF this, of "results @ [\<lparr>name = originalname g, size'' = size' g, file_id = i\<rparr>]"
      "meta(i \<mapsto> (originalname g, fileExt (originalname g)))" "sent @ [g]"]
  obtain results' meta' where
    "ChatGPTAdapter_uploadLoop create (pre @ rest)
       (results @ [\<lparr>name = originalname g, size'' = size' g, file_id = i\<rparr>])
       (meta(i \<mapsto> (originalname g, fileExt (originalname g)))) (sent @ [g])
     = ChatGPTAdapter_uploadLoop create rest results' meta' ((sent @ [g]) @ pre)"
    and "map name results'
     = map name (results @ [\<lparr>name = originalname g, size'' = size' g, file_id = i\<rparr>])
       @ map originalname pre"
    by blast
  then have "ChatGPTAdapter_uploadLoop create ((g # pre) @ rest) results meta sent
     = ChatGPTAdapter_uploadLoop create rest results' meta' (sent @ g # pre)
     \<and> map name results' = map name results @ map originalname (g # pre)"
    using i by simp
  then show ?case by blast
qed

lemma ChatGPTAdapter_uploadFiles_abort:
  assumes "list_all (\<lambda>g. \<not> isl (create g)) pre" and "create f = Inl e"
  shows "snd (ChatGPTAdapter_uploadFiles create meta (pre @ f # post)) = (pre @ [f], Inl e)"
proof -
  from ChatGPTAdapter_uploadLoop_prefix[OF assms(1), of "f # post" "[]" meta "[]"]
  obtain results' meta' where "ChatGPTAdapter_uploadLoop create (pre @ f # post) [] meta []
         = ChatGPTAdapter_uploadLoop create (f # post) results' meta' ([] @ pre)" by blast
  then show ?thesis using assms(2) by (simp add: ChatGPTAdapter_uploadFiles_def)
qed

lemma ChatGPTAdapter_uploadFiles_no_validation:
  assumes "list_all (\<lambda>g. \<not> isl (create g)) files" and "files \<noteq> []"
  shows "\<exists>results. snd (ChatGPTAdapter_uploadFiles create meta files) = (files, Inr results)
         \<and> map name results = map originalname files"
proof -
  from ChatGPTAdapter_uploadLoop_prefix[OF assms(1), of "[]" "[]" meta "[]"]
  obtain results' meta' where "ChatGPTAdapter_uploadLoop create files [] meta []
         = ChatGPTAdapter_uploadLoop create [] results' meta' files"
    and "map name results' = map originalname files" by auto
  then show ?thesis using assms(2) by (simp add: ChatGPTAdapter_uploadFiles_def)
qed

text \<open>
  C7, as stated, fails on the ChatGPT variant: it checks neither the length nor the
  extension of a file. An empty file with an extension of no accepted set is uploaded and
  its descriptor returned.
\<close>

theorem ChatGPTAdapter_uploads_empty_file_counterexample:
  "snd (snd (ChatGPTAdapter_uploadFiles (\<lambda>f. Inr ''file-1'') Map.empty
          [\<lparr>buffer = [], originalname = ''notes.xyz'', size' = 0\<rparr>]))
   = Inr [\<lparr>name = ''notes.xyz'', size'' = 0, file_id = ''file-1''\<rparr>]"
  by (simp add: ChatGPTAdapter_uploadFiles_def)

text \<open>
  C7, amended. Both variants fail on an empty sequence of files, and both stop at the
  first file that fails, raising its error and sending no later file to the provider. The
  Mistral variant refuses a file of zero length and a file whose name has none of its
  accepted extensions before sending it (the error of the first file of a batch as it is,
  the error of a later file behind the prefix \<^verbatim>\<open>Erreur upload <name>: \<close>); the ChatGPT
  variant validates nothing and fails only when the provider refuses a file.
\<close>

theorem uploadFiles_validation_and_abort:
  "MistralAdapter_uploadFiles upload [] = ([], Inl (new_Error ''Aucun fichier fourni''))
   \<and> snd (ChatGPTAdapter_uploadFiles create meta [])
       = ([], Inl (new_Error (''Aucun fichier '' @ [CHR 0xE0] @ '' uploader'')))
   \<and> (list_all (\<lambda>g. validateFile (buffer g) (originalname g) = Inr () \<and> \<not> isl (upload g)) pre
        \<and> buffer f = []
        \<longrightarrow> MistralAdapter_uploadFiles upload (pre @ f # post)
            = (pre, Inl (if pre = [] then new_Error ''Fichier vide''
                         else new_Error (''Erreur upload '' @ originalname f @ '': ''
                                         @ ''Fichier vide''))))
   \<and> (list_all (\<lambda>g. validateFile (buffer g) (originalname g) = Inr () \<and> \<not> isl (upload g)) pre
        \<and> buffer f \<noteq> [] \<and> \<not> isSupportedFormat (originalname f) []
        \<longrightarrow> (\<exists>e. validateFile (buffer f) (originalname f) = Inl e
              \<and> MistralAdapter_uploadFiles upload (pre @ f # post)
                = (pre, Inl (if pre = [] then e
                             else new_Error (''Erreur upload '' @ originalname f @ '': ''
                                             @ message e)))))
   \<and> (list_all (\<lambda>g. validateFile (buffer g) (originalname g) = Inr () \<and> \<not> isl (upload g)) pre
        \<and> validateFile (buffer f) (originalname f) = Inr () \<and> upload f = Inl e
        \<longrightarrow> MistralAdapter_uploadFiles upload (pre @ f # post)
            = (pre @ [f],
               Inl (new_Error (''Erreur upload '' @ originalname f @ '': '' @ message e))))
   \<and> (list_all (\<lambda>g. \<not> isl (create g)) pre \<and> create f = Inl e
        \<longrightarrow> snd (ChatGPTAdapter_uploadFiles create meta (pre @ f # post)) = (pre @ [f], Inl e))
   \<and> (list_all (\<lambda>g. \<not> isl (create g)) files \<and> files \<noteq> []
        \<longrightarrow> (\<exists>results. snd (ChatGPTAdapter_uploadFiles create meta files) = (files, Inr results)
              \<and> map name results = map originalname files))"
proof (intro conjI impI)
  show "MistralAdapter_uploadFiles upload [] = ([], Inl (new_Error ''Aucun fichier fourni''))"
    by (simp add: MistralAdapter_uploadFiles_def)
next
  show "snd (ChatGPTAdapter_uploadFiles create meta [])
       = ([], Inl (new_Error (''Aucun fichier '' @ [CHR 0xE0] @ '' uploader'')))"
    by (simp add: ChatGPTAdapter_uploadFiles_def)
next
  assume a: "list_all (\<lambda>g. validateFile (buffer g) (originalname g) = Inr () \<and> \<not> isl (upload g)) pre
        \<and> buffer f = []"
  then have "validateFile (buffer f) (originalname f) = Inl (new_Error ''Fichier vide'')"
    by (simp add: validateFile_def)
  from MistralAdapter_uploadFiles_abort_invalid[OF _ this, of upload pre post] a
  show "MistralAdapter_uploadFiles upload (pre @ f # post)
            = (pre, Inl (if pre = [] then new_Error ''Fichier vide''
                         else new_Error (''Erreur upload '' @ originalname f @ '': ''
                                         @ ''Fichier vide'')))"
    by (simp add: new_Error_def)
next
  assume a: "list_all (\<lambda>g. validateFile (buffer g) (originalname g) = Inr () \<and> \<not> isl (upload g)) pre
        \<and> buffer f \<noteq> [] \<and> \<not> isSupportedFormat (originalname f) []"
  then obtain e where e: "validateFile (buffer f) (originalname f) = Inl e"
    by (simp add: validateFile_def)
  from MistralAdapter_uploadFiles_abort_invalid[OF _ e, of upload pre post] a e
  show "\<exists>e. validateFile (buffer f) (originalname f) = Inl e
              \<and> MistralAdapter_uploadFiles upload (pre @ f # post)
                = (pre, Inl (if pre = [] then e
                             else new_Error (''Erreur upload '' @ originalname f @ '': ''
                                             @ message e)))"
    by blast
next
  assume "list_all (\<lambda>g. validateFile (buffer g) (originalname g) = Inr () \<and> \<not> isl (upload g)) pre
        \<and> validateFile (buffer f) (originalname f) = Inr () \<and> upload f = Inl e"
  then show "MistralAdapter_uploadFiles upload (pre @ f # post)
            = (pre @ [f],
               Inl (new_Error (''Erreur upload '' @ originalname f @ '': '' @ message e)))"
    using MistralAdapter_uploadFiles_abort_upload[of upload pre f e post] by simp
next
  assume "list_all (\<lambda>g. \<not> isl (create g)) pre \<and> create f = Inl e"
  then show "snd (ChatGPTAdapter_uploadFiles create meta (pre @ f # post)) = (pre @ [f], Inl e)"
    using ChatGPTAdapter_uploadFiles_abort[of create pre f e meta post] by simp
next
  assume "list_all (\<lambda>g. \<not> isl (create g)) files \<and> files \<noteq> []"
  then show "\<exists>results. snd (ChatGPTAdapter_uploadFiles create meta files) = (files, Inr results)
              \<and> map name results = map originalname files"
    using ChatGPTAdapter_uploadFiles_no_validation[of create files meta] by simp
qed

theorem uploadFiles_validation_and_abort_witness:
  "list_all (\<lambda>g. validateFile (buffer g) (originalname g) = Inr () \<and> \<not> isl (uploadAccepts g))
     [filePdf]
   \<and> buffer fileEmpty = []
   \<and> MistralAdapter_uploadFiles uploadAccepts ([filePdf] @ fileEmpty # [filePdf])
       = ([filePdf], Inl (new_Error ''Erreur upload vide.pdf: Fichier vide''))
   \<and> buffer fileTxt \<noteq> [] \<and> \<not> isSupportedFormat (originalname fileTxt) []
   \<and> fst (MistralAdapter_uploadFiles uploadAccepts ([] @ fileTxt # [filePdf])) = []
   \<and> isl (snd (MistralAdapter_uploadFiles uploadAccepts ([] @ fileTxt # [filePdf])))
   \<and> list_all (\<lambda>g. \<not> isl (uploadRejectsTxt g)) [filePdf]
   \<and> uploadRejectsTxt fileTxt = Inl (JsError (Some 400) ''Invalid file format.'')
   \<and> snd (ChatGPTAdapter_uploadFiles uploadRejectsTxt Map.empty ([filePdf] @ fileTxt # [filePdf]))
       = ([filePdf] @ [fileTxt], Inl (JsError (Some 400) ''Invalid file format.''))"
proof -
  have v: "validateFile (buffer filePdf) (originalname filePdf) = Inr ()"
    by (simp add: validateFile_def isSupportedFormat_def filePdf_def endsWith_def
        toLowerCase_def toLowerChar_def)
  have h1: "list_all (\<lambda>g. validateFile (buffer g) (originalname g) = Inr ()
                          \<and> \<not> isl (uploadAccepts g)) [filePdf]"
    using v by (simp add: uploadAccepts_def)
  have h2: "buffer fileEmpty = []" by (simp add: fileEmpty_def)
  have h3: "buffer fileTxt \<noteq> [] \<and> \<not> isSupportedFormat (originalname fileTxt) []"
    by (simp add: fileTxt_def isSupportedFormat_def endsWith_def toLowerCase_def toLowerChar_def)
  have h4: "list_all (\<lambda>g. \<not> isl (uploadRejectsTxt g)) [filePdf]"
    by (simp add: uploadRejectsTxt_def filePdf_def endsWith_def)
  have h5: "uploadRejectsTxt fileTxt = Inl (JsError (Some 400) ''Invalid file format.'')"
    by (simp add: uploadRejectsTxt_def fileTxt_def endsWith_def)
  have n: "originalname fileEmpty = ''vide.pdf''" by (simp add: fileEmpty_def)
  note t = uploadFiles_validation_and_abort
  from t[of uploadAccepts uploadAccepts Map.empty "[filePdf]" fileEmpty "[filePdf]"
      "new_Error []" "[]"] h1 h2 n
  have c1: "MistralAdapter_uploadFiles uploadAccepts ([filePdf] @ fileEmpty # [filePdf])
       = ([filePdf], Inl (new_Error ''Erreur upload vide.pdf: Fichier vide''))"
    by simp
  from t[of uploadAccepts uploadAccepts Map.empty "[]" fileTxt "[filePdf]" "new_Error []" "[]"] h3
  have c2: "fst (MistralAdapter_uploadFiles uploadAccepts ([] @ fileTxt # [filePdf])) = []
     \<and> isl (snd (MistralAdapter_uploadFiles uploadAccepts ([] @ fileTxt # [filePdf])))"
    by auto
  from t[of uploadAccepts uploadRejectsTxt Map.empty "[filePdf]" fileTxt "[filePdf]"
      "JsError (Some 400) ''Invalid file format.''" "[]"] h4 h5
  have c3: "snd (ChatGPTAdapter_uploadFiles uploadRejectsTxt Map.empty
                  ([filePdf] @ fileTxt # [filePdf]))
       = ([filePdf] @ [fileTxt], Inl (JsError (Some 400) ''Invalid file format.''))"
    by simp
  from h1 h2 h3 h4 h5 c1 c2 c3 show ?thesis by simp
qed

lemma documentContextLoop_context:
  "fst (documentContextLoop ocr del ids (ctx, n, dl)) =
     ctx @ concat (map (\<lambda>fileId. case MistralAdapter_extractTextFromFile ocr fileId of
        Inr text \<Rightarrow> ''\<newline>[Fichier: '' @ fileId @ '']\<newline>'' @ truncated text @ ''\<newline>''
      | Inl e \<Rightarrow> ''\<newline>[Fichier: '' @ fileId @ ''] - Erreur d'extraction\<newline>'') ids)"
proof (induction ids arbitrary: ctx n dl)
  case Nil
  then show ?case by simp
next
  case (Cons fileId ids)
  show ?case
  proof (cases "MistralAdapter_extractTextFromFile ocr fileId")
    case (Inl e)
    then show ?thesis using Cons.IH by simp
  next
    case (Inr extracted_text)
    then show ?thesis using Cons.IH
      by (simp add: Let_def split: sum.splits)
  qed
qed

lemma map_StandardizedMessage_id:
  "map (\<lambda>m. \<lparr>role = role m, content = content m\<rparr>) ms = (ms :: StandardizedMessage list)"
  by (induction ms) simp_all

text \<open>
  C8. In the Mistral variant's \<open>sendChatRequest\<close> with a non-empty list of file ids and
  a trailing user message, the messages sent to the provider are the request's messages
  with the document context appended to the last one: after the header, one section per
  file id in order, which for a file whose text was extracted holds the text itself when
  it has at most 5000 characters, and otherwise its first 5000 characters followed by the
  truncation marker.
\<close>

theorem sendChatRequest_splices_file_text:
  assumes "file_ids request \<noteq> []" and "messages request \<noteq> []"
    and "role (last (messages request)) = ''user''"
  shows "map call_messages
           (chatCalls (fst (MistralAdapter_sendChatRequest maxTokens ocr del chat request)))
     = [butlast (messages request) @
        [\<lparr>role = ''user'',
          content = content (last (messages request))
            @ ''\<newline>\<newline>--- DOCUMENTS ATTACH'' @ [CHR 0xC9] @ ''S ---\<newline>''
            @ concat (map (\<lambda>fileId. case MistralAdapter_extractTextFromFile ocr fileId of
                Inr text \<Rightarrow> ''\<newline>[Fichier: '' @ fileId @ '']\<newline>''
                   @ (if length text > 5000
                      then take 5000 text @ ''\<newline>[... contenu tronqu'' @ [CHR 0xE9] @ '' ...]''
                      else text)
                   @ ''\<newline>''
              | Inl e \<Rightarrow> ''\<newline>[Fichier: '' @ fileId @ ''] - Erreur d'extraction\<newline>'')
               (file_ids request))\<rparr>]]"
proof -
  obtain ctx n dl where loop: "documentContextLoop ocr del (file_ids request)
      (''\<newline>\<newline>--- DOCUMENTS ATTACH'' @ [CHR 0xC9] @ ''S ---\<newline>'', 0, []) = (ctx, n, dl)"
    by (cases "documentContextLoop ocr del (file_ids request)
      (''\<newline>\<newline>--- DOCUMENTS ATTACH'' @ [CHR 0xC9] @ ''S ---\<newline>'', 0, [])") auto
  have ctx: "ctx = (''\<newline>\<newline>--- DOCUMENTS ATTACH'' @ [CHR 0xC9] @ ''S ---\<newline>'')
      @ concat (map (\<lambda>fileId. case MistralAdapter_extractTextFromFile ocr fileId of
        Inr text \<Rightarrow> ''\<newline>[Fichier: '' @ fileId @ '']\<newline>'' @ truncated text @ ''\<newline>''
      | Inl e \<Rightarrow> ''\<newline>[Fichier: '' @ fileId @ ''] - Erreur d'extraction\<newline>'')
         (file_ids request))"
    using documentContextLoop_context[of ocr del "file_ids request"
        "''\<newline>\<newline>--- DOCUMENTS ATTACH'' @ [CHR 0xC9] @ ''S ---\<newline>''" 0 "[]"] loop
    by simp
  have last_eq: "(last (messages request))\<lparr>content := content (last (messages request)) @ ctx\<rparr>
     = \<lparr>role = ''user'', content = content (last (messages request)) @ ctx\<rparr>"
    using assms(3) by (cases "last (messages request)") simp
  have mm: "mistralMessages ocr del request
     = (butlast (messages request)
          @ [\<lparr>role = ''user'', content = content (last (messages request)) @ ctx\<rparr>], dl)"
    using assms loop last_eq by (simp add: mistralMessages_def map_StandardizedMessage_id Let_def)
  show ?thesis
    using assms(2) mm ctx
    by (simp add: MistralAdapter_sendChatRequest_def Let_def truncated_def
        split: sum.splits option.splits list.splits cong: sum.case_cong)
qed

theorem sendChatRequest_splices_file_text_witness:
  "file_ids requestWithFiles \<noteq> [] \<and> messages requestWithFiles \<noteq> []
   \<and> role (last (messages requestWithFiles)) = ''user''
   \<and> MistralAdapter_extractTextFromFile ocrLong ''file-long'' = Inr (replicate 5003 CHR ''a'')
   \<and> MistralAdapter_extractTextFromFile ocrLong ''file-short'' = Inr ''short text''
   \<and> isl (MistralAdapter_extractTextFromFile ocrLong ''file-gone'')
   \<and> map call_messages
        (chatCalls (fst (MistralAdapter_sendChatRequest 4096 ocrLong (\<lambda>fileId. Inr ())
           (\<lambda>call. Inl (JsError (Some 429) ''Too Many Requests'')) requestWithFiles)))
      = [[\<lparr>role = ''system'', content = ''Be brief.''\<rparr>,
          \<lparr>role = ''user'',
            content = ''Summarise.''
              @ ''\<newline>\<newline>--- DOCUMENTS ATTACH'' @ [CHR 0xC9] @ ''S ---\<newline>''
              @ ''\<newline>[Fichier: file-long]\<newline>'' @ replicate 5000 CHR ''a''
              @ ''\<newline>[... contenu tronqu'' @ [CHR 0xE9] @ '' ...]'' @ ''\<newline>''
              @ ''\<newline>[Fichier: file-short]\<newline>short text\<newline>''
              @ ''\<newline>[Fichier: file-gone] - Erreur d'extraction\<newline>''\<rparr>]]"
proof -
  have h: "file_ids requestWithFiles \<noteq> []" "messages requestWithFiles \<noteq> []"
    "role (last (messages requestWithFiles)) = ''user''"
    by (simp_all add: requestWithFiles_def)
  have x1: "MistralAdapter_extractTextFromFile ocrLong ''file-long'' = Inr (replicate 5003 CHR ''a'')"
    by (simp add: MistralAdapter_extractTextFromFile_def ocrLong_def extractedText_def Let_def)
  have x2: "MistralAdapter_extractTextFromFile ocrLong ''file-short'' = Inr ''short text''"
    by (simp add: MistralAdapter_extractTextFromFile_def ocrLong_def extractedText_def Let_def)
  have x3: "MistralAdapter_extractTextFromFile ocrLong ''file-gone''
      = Inl (new_Error ''Erreur OCR: File not found'')"
    by (simp add: MistralAdapter_extractTextFromFile_def ocrLong_def)
  have m: "messages requestWithFiles = [\<lparr>role = ''system'', content = ''Be brief.''\<rparr>,
                                      \<lparr>role = ''user'', content = ''Summarise.''\<rparr>]"
    and f: "file_ids requestWithFiles = [''file-long'', ''file-short'', ''file-gone'']"
    by (simp_all add: requestWithFiles_def)
  from sendChatRequest_splices_file_text[OF h, of 4096 ocrLong "\<lambda>fileId. Inr ()"
      "\<lambda>call. Inl (JsError (Some 429) ''Too Many Requests'')"]
  have "map call_messages
        (chatCalls (fst (MistralAdapter_sendChatRequest 4096 ocrLong (\<lambda>fileId. Inr ())
           (\<lambda>call. Inl (JsError (Some 429) ''Too Many Requests'')) requestWithFiles)))
      = [[\<lparr>role = ''system'', content = ''Be brief.''\<rparr>,
          \<lparr>role = ''user'',
            content = ''Summarise.''
              @ ''\<newline>\<newline>--- DOCUMENTS ATTACH'' @ [CHR 0xC9] @ ''S ---\<newline>''
              @ ''\<newline>[Fichier: file-long]\<newline>'' @ replicate 5000 CHR ''a''
              @ ''\<newline>[... contenu tronqu'' @ [CHR 0xE9] @ '' ...]'' @ ''\<newline>''
              @ ''\<newline>[Fichier: file-short]\<newline>short text\<newline>''
              @ ''\<newline>[Fichier: file-gone] - Erreur d'extraction\<newline>''\<rparr>]]"
    by (simp add: m f x1 x2 x3)
  with h x1 x2 x3 show ?thesis by simp
qed

section \<open>Properties of the chat service\<close>

lemma adapterCalls_append: "adapterCalls (xs @ ys) = adapterCalls xs @ adapterCalls ys"
  by (induction xs rule: adapterCalls.induct) simp_all

lemma bookkeepingCalls_append:
  "bookkeepingCalls (xs @ ys) = bookkeepingCalls xs @ bookkeepingCalls ys"
  by (induction xs rule: bookkeepingCalls.induct) simp_all

lemma getTotalCost_ensureUserExists:
  "getTotalCost u (ensureUserExists u d) = getTotalCost u d"
  by (simp add: getTotalCost_def ensureUserExists_def defaultRow_def ISNULL_def
      split: option.splits)

lemma getTotalCost_addRequest: "getTotalCost u (addRequest u d) = getTotalCost u d"
  by (simp add: getTotalCost_def addRequest_def split: option.splits)

lemma getTotalCost_addRequestWithFiles:
  "getTotalCost u (addRequestWithFiles u d) = getTotalCost u d"
  by (simp add: getTotalCost_def addRequestWithFiles_def split: option.splits)

lemma getCostLimit_ensureUserExists:
  "getCostLimit u (ensureUserExists u d) = getCostLimit u d"
  by (simp add: getCostLimit_def ensureUserExists_def defaultRow_def ISNULL_def
      split: option.splits)

lemma getCostLimit_addRequest: "getCostLimit u (addRequest u d) = getCostLimit u d"
  by (simp add: getCostLimit_def addRequest_def split: option.splits)

lemma getCostLimit_addRequestWithFiles:
  "getCostLimit u (addRequestWithFiles u d) = getCostLimit u d"
  by (simp add: getCostLimit_def addRequestWithFiles_def split: option.splits)

lemma getTotalTokens_ensureUserExists:
  "getTotalTokens u (ensureUserExists u d) = getTotalTokens u d"
  by (simp add: getTotalTokens_def ensureUserExists_def defaultRow_def ISNULL_def
      split: option.splits)

lemma getTotalTokens_addRequest: "getTotalTokens u (addRequest u d) = getTotalTokens u d"
  by (simp add: getTotalTokens_def addRequest_def split: option.splits)

lemma getTotalTokens_addRequestWithFiles:
  "getTotalTokens u (addRequestWithFiles u d) = getTotalTokens u d"
  by (simp add: getTotalTokens_def addRequestWithFiles_def split: option.splits)

lemmas reads_after_requests =
  getTotalCost_ensureUserExists getTotalCost_addRequest getTotalCost_addRequestWithFiles
  getCostLimit_ensureUserExists getCostLimit_addRequest getCostLimit_addRequestWithFiles
  getTotalTokens_ensureUserExists getTotalTokens_addRequest getTotalTokens_addRequestWithFiles

text \<open>
  A request that is answered: the adapter is called once with the normalized request, the
  tokens and the cost of the answer are added to the user's totals, in this order.
\<close>

lemma processChatRequest_answer_example:
  "processChatRequest Map.empty (Num 2) adapterAnswers ''tbo'' requestHello
     ''mistral-large-latest'' worldNewUser
   = (\<lparr>db = [''tbo'' \<mapsto> defaultRow\<lparr>totalRequests := Some 1, totalTokens := Some 30,
                                         totalCost := Some (25 / 1000000)\<rparr>],
       calls = [EnsureUserExists ''tbo'', AddRequest ''tbo'', GetTotalCost ''tbo'',
                GetCostLimit ''tbo'',
                SendChatRequest \<lparr>messages = [\<lparr>role = ''user'', content = ''hello''\<rparr>],
                                 file_ids = [], model = ''mistral-large-latest''\<rparr>,
                AddTokens ''tbo'' 30, AddCost ''tbo'' (25 / 1000000)]\<rparr>,
      Inr \<lparr>content'' = ''hi there'', usage'' = Some usageChat, cost = 25 / 1000000,
           limitReached = False\<rparr>)"
proof -
  have c: "computeCostFromUsage Map.empty (Some usageChat) (Some ''mistral-large-latest'')
      = 25 / 1000000"
    by code_simp
  have n: "normalizeRequest requestHello ''mistral-large-latest''
       = Inr \<lparr>messages = [\<lparr>role = ''user'', content = ''hello''\<rparr>], file_ids = [],
              model = ''mistral-large-latest''\<rparr>"
    by (simp add: normalizeRequest_def requestHello_def)
  have f: "\<not> hasFiles requestHello" by (simp add: hasFiles_def requestHello_def)
  show ?thesis
    by (simp add: c n f processChatRequest_def Let_def worldNewUser_def adapterAnswers_def
        ensureUserExists_def addRequest_def addTokens_def addCost_def getTotalCost_def
        getCostLimit_def effectiveLimit_def defaultRow_def ISNULL_def)
qed

text \<open>
  C1. For every user whose accumulated cost is at least the effective ceiling (the
  user's own when it is finite, the service's otherwise), \<open>processChatRequest\<close> returns
  the empty response flagged \<^verbatim>\<open>limitReached\<close> and sends nothing to the adapter: its calls
  are the user bookkeeping and the two reads of the cost and the ceiling.
\<close>

theorem processChatRequest_limitReached:
  assumes "js_ge (getTotalCost username (db w))
                 (effectiveLimit costLimit (getCostLimit username (db w)))"
  shows "snd (processChatRequest env costLimit adapter username rawRequest mdl w)
           = Inr \<lparr>content'' = [], usage'' = None, cost = 0, limitReached = True\<rparr>
       \<and> adapterCalls (calls (fst (processChatRequest env costLimit adapter username rawRequest mdl w)))
           = adapterCalls (calls w)
       \<and> calls (fst (processChatRequest env costLimit adapter username rawRequest mdl w))
           = calls w @ [EnsureUserExists username, AddRequest username]
               @ (if hasFiles rawRequest then [AddRequestWithFiles username] else [])
               @ [GetTotalCost username, GetCostLimit username]"
  using assms
  by (simp add: processChatRequest_def Let_def adapterCalls_append reads_after_requests)

theorem processChatRequest_limitReached_witness:
  "js_ge (getTotalCost ''tbo'' (db worldAtCeiling))
         (effectiveLimit (Num 2) (getCostLimit ''tbo'' (db worldAtCeiling)))
   \<and> snd (processChatRequest Map.empty (Num 2) adapterAnswers ''tbo'' requestHello
             ''mistral-large-latest'' worldAtCeiling)
       = Inr \<lparr>content'' = [], usage'' = None, cost = 0, limitReached = True\<rparr>
   \<and> adapterCalls (calls (fst (processChatRequest Map.empty (Num 2) adapterAnswers ''tbo''
                                  requestHello ''mistral-large-latest'' worldAtCeiling))) = []
   \<and> calls (fst (processChatRequest Map.empty (Num 2) adapterAnswers ''tbo'' requestHello
                    ''mistral-large-latest'' worldAtCeiling))
       = [EnsureUserExists ''tbo'', AddRequest ''tbo'', GetTotalCost ''tbo'', GetCostLimit ''tbo'']"
proof -
  have h: "js_ge (getTotalCost ''tbo'' (db worldAtCeiling))
                 (effectiveLimit (Num 2) (getCostLimit ''tbo'' (db worldAtCeiling)))"
    by (simp add: worldAtCeiling_def rowAtCeiling_def getTotalCost_def getCostLimit_def
        effectiveLimit_def ISNULL_def)
  have f: "\<not> hasFiles requestHello" by (simp add: hasFiles_def requestHello_def)
  have c: "calls worldAtCeiling = []" by (simp add: worldAtCeiling_def)
  from processChatRequest_limitReached[OF h, of Map.empty adapterAnswers requestHello
      "''mistral-large-latest''"] h f c
  show ?thesis by simp
qed

text \<open>
  C9. Whenever the adapter's \<open>sendChatRequest\<close> is called and fails, \<open>processChatRequest\<close>
  fails with that same error, has called the adapter once (no retry) and makes no
  \<open>addTokens\<close> and no \<open>addCost\<close> call: the user's token and cost totals are unchanged.
\<close>

theorem processChatRequest_adapter_failure:
  assumes "\<not> js_ge (getTotalCost username (db w))
                   (effectiveLimit costLimit (getCostLimit username (db w)))"
    and "normalizeRequest rawRequest mdl = Inr request"
    and "adapter request = Inl e"
  shows "snd (processChatRequest env costLimit adapter username rawRequest mdl w) = Inl e
       \<and> adapterCalls (calls (fst (processChatRequest env costLimit adapter username rawRequest mdl w)))
           = adapterCalls (calls w) @ [request]
       \<and> bookkeepingCalls (calls (fst (processChatRequest env costLimit adapter username rawRequest mdl w)))
           = bookkeepingCalls (calls w)
       \<and> getTotalTokens username (db (fst (processChatRequest env costLimit adapter username rawRequest mdl w)))
           = getTotalTokens username (db w)
       \<and> getTotalCost username (db (fst (processChatRequest env costLimit adapter username rawRequest mdl w)))
           = getTotalCost username (db w)"
  using assms
  by (simp add: processChatRequest_def Let_def adapterCalls_append bookkeepingCalls_append
      reads_after_requests)

theorem processChatRequest_adapter_failure_witness:
  "\<not> js_ge (getTotalCost ''tbo'' (db worldNewUser))
           (effectiveLimit (Num 2) (getCostLimit ''tbo'' (db worldNewUser)))
   \<and> normalizeRequest requestHello ''mistral-large-latest''
       = Inr \<lparr>messages = [\<lparr>role = ''user'', content = ''hello''\<rparr>], file_ids = [],
              model = ''mistral-large-latest''\<rparr>
   \<and> snd (processChatRequest Map.empty (Num 2) adapterRateLimited ''tbo'' requestHello
             ''mistral-large-latest'' worldNewUser)
       = Inl (new_Error (''Limite de taux API Mistral atteinte. Veuillez r'' @ [CHR 0xE9]
                         @ ''essayer plus tard.''))
   \<and> adapterCalls (calls (fst (processChatRequest Map.empty (Num 2) adapterRateLimited ''tbo''
                                  requestHello ''mistral-large-latest'' worldNewUser)))
       = [\<lparr>messages = [\<lparr>role = ''user'', content = ''hello''\<rparr>], file_ids = [],
           model = ''mistral-large-latest''\<rparr>]
   \<and> bookkeepingCalls (calls (fst (processChatRequest Map.empty (Num 2) adapterRateLimited ''tbo''
                                      requestHello ''mistral-large-latest'' worldNewUser))) = []"
proof -
  have h1: "\<not> js_ge (getTotalCost ''tbo'' (db worldNewUser))
                   (effectiveLimit (Num 2) (getCostLimit ''tbo'' (db worldNewUser)))"
    by (simp add: worldNewUser_def getTotalCost_def getCostLimit_def effectiveLimit_def)
  have h2: "normalizeRequest requestHello ''mistral-large-latest''
       = Inr \<lparr>messages = [\<lparr>role = ''user'', content = ''hello''\<rparr>], file_ids = [],
              model = ''mistral-large-latest''\<rparr>"
    by (simp add: normalizeRequest_def requestHello_def)
  have h3: "adapterRateLimited \<lparr>messages = [\<lparr>role = ''user'', content = ''hello''\<rparr>],
                file_ids = [], model = ''mistral-large-latest''\<rparr>
       = Inl (new_Error (''Limite de taux API Mistral atteinte. Veuillez r'' @ [CHR 0xE9]
                         @ ''essayer plus tard.''))"
    by (simp add: adapterRateLimited_def MistralAdapter_sendChatRequest_def mistralMessages_def
        mistralError_def new_Error_def Let_def)
  have c: "calls worldNewUser = []" by (simp add: worldNewUser_def)
  from processChatRequest_adapter_failure[where adapter = adapterRateLimited
      and env = Map.empty, OF h1 h2 h3] h1 h2 c
  show ?thesis by simp
qed

lemma requestCounted_after_requests:
  "requestCounted u files d
     (if files then addRequestWithFiles u (addRequest u (ensureUserExists u d))
      else addRequest u (ensureUserExists u d))"
  by (auto simp: requestCounted_def ensureUserExists_def addRequest_def addRequestWithFiles_def
      split: option.splits)

lemma requestCounted_addTokens:
  "requestCounted u files d d' \<Longrightarrow> requestCounted u files d (addTokens u n d')"
  by (auto simp: requestCounted_def addTokens_def Let_def split: option.splits)

lemma requestCounted_addCost:
  "requestCounted u files d d' \<Longrightarrow> requestCounted u files d (addCost u c d')"
  by (auto simp: requestCounted_def addCost_def Let_def split: option.splits)

text \<open>
  C10. \<open>processChatRequest\<close> increments the user's \<^verbatim>\<open>totalRequests\<close> (and
  \<^verbatim>\<open>totalRequestsWithFiles\<close> when \<^verbatim>\<open>file_ids\<close> is not empty) before it reads the cost
  and the ceiling and before it validates the input, and nothing undoes the increment:
  whatever the outcome (limit reached, missing input, adapter failure or an answer), the
  user's row exists afterwards with the counters incremented.
\<close>

theorem processChatRequest_counts_every_request:
  "(let row0 = (case db w username of None \<Rightarrow> defaultRow | Some r \<Rightarrow> r);
        w' = fst (processChatRequest env costLimit adapter username rawRequest mdl w)
    in (\<exists>row'. db w' username = Some row'
          \<and> totalRequests row' = Some (ISNULL (totalRequests row0) 0 + 1)
          \<and> totalRequestsWithFiles row' =
              (if hasFiles rawRequest then Some (ISNULL (totalRequestsWithFiles row0) 0 + 1)
               else totalRequestsWithFiles row0))
       \<and> (\<exists>rest. calls w' = calls w @ [EnsureUserExists username, AddRequest username]
             @ (if hasFiles rawRequest then [AddRequestWithFiles username] else [])
             @ [GetTotalCost username, GetCostLimit username] @ rest))"
proof -
  let ?d2 = "addRequest username (ensureUserExists username (db w))"
  let ?w' = "fst (processChatRequest env costLimit adapter username rawRequest mdl w)"
  have counted: "requestCounted username (hasFiles rawRequest) (db w) (db ?w')"
  proof (cases "hasFiles rawRequest")
    case True
    have c3: "requestCounted username True (db w) (addRequestWithFiles username ?d2)"
      using requestCounted_after_requests[of username True "db w"] by simp
    show ?thesis
      using True c3 requestCounted_addCost[OF c3]
        requestCounted_addCost[OF requestCounted_addTokens[OF c3]]
      by (simp add: processChatRequest_def Let_def split: sum.splits)
  next
    case False
    have c3: "requestCounted username False (db w) ?d2"
      using requestCounted_after_requests[of username False "db w"] by simp
    show ?thesis
      using False c3 requestCounted_addCost[OF c3]
        requestCounted_addCost[OF requestCounted_addTokens[OF c3]]
      by (simp add: processChatRequest_def Let_def split: sum.splits)
  qed
  have trace: "\<exists>rest. calls ?w'
      = calls w @ [EnsureUserExists username, AddRequest username]
             @ (if hasFiles rawRequest then [AddRequestWithFiles username] else [])
             @ [GetTotalCost username, GetCostLimit username] @ rest"
    by (simp add: processChatRequest_def Let_def split: sum.splits)
  from counted trace show ?thesis
    by (simp add: requestCounted_def Let_def)
qed

theorem processChatRequest_counts_every_request_witness:
  "snd (processChatRequest Map.empty (Num 2) adapterAnswers ''tbo'' requestHello
          ''mistral-large-latest'' worldAtCeiling)
     = Inr \<lparr>content'' = [], usage'' = None, cost = 0, limitReached = True\<rparr>
   \<and> map_option totalRequests
        (db (fst (processChatRequest Map.empty (Num 2) adapterAnswers ''tbo'' requestHello
                    ''mistral-large-latest'' worldAtCeiling)) ''tbo'') = Some (Some 8)
   \<and> hasFiles requestNoInput
   \<and> snd (processChatRequest Map.empty (Num 2) adapterAnswers ''tbo'' requestNoInput
            ''mistral-large-latest'' worldNewUser)
     = Inl (new_Error (''Ni prompt ni messages n'ont '' @ [CHR 0xE9] @ ''t'' @ [CHR 0xE9]
                       @ '' fournis''))
   \<and> map_option totalRequests
        (db (fst (processChatRequest Map.empty (Num 2) adapterAnswers ''tbo'' requestNoInput
                    ''mistral-large-latest'' worldNewUser)) ''tbo'') = Some (Some 1)
   \<and> map_option totalRequestsWithFiles
        (db (fst (processChatRequest Map.empty (Num 2) adapterAnswers ''tbo'' requestNoInput
                    ''mistral-large-latest'' worldNewUser)) ''tbo'') = Some (Some 1)
   \<and> isl (snd (processChatRequest Map.empty (Num 2) adapterRateLimited ''tbo'' requestHello
                 ''mistral-large-latest'' worldNewUser))
   \<and> map_option totalRequests
        (db (fst (processChatRequest Map.empty (Num 2) adapterRateLimited ''tbo'' requestHello
                    ''mistral-large-latest'' worldNewUser)) ''tbo'') = Some (Some 1)"
proof -
  have f1: "\<not> hasFiles requestHello" by (simp add: hasFiles_def requestHello_def)
  have f2: "hasFiles requestNoInput" by (simp add: hasFiles_def requestNoInput_def)
  have h1: "js_ge (getTotalCost ''tbo'' (db worldAtCeiling))
                  (effectiveLimit (Num 2) (getCostLimit ''tbo'' (db worldAtCeiling)))"
    by (simp add: worldAtCeiling_def rowAtCeiling_def getTotalCost_def getCostLimit_def
        effectiveLimit_def ISNULL_def)
  have h2: "\<not> js_ge (getTotalCost ''tbo'' (db worldNewUser))
                    (effectiveLimit (Num 2) (getCostLimit ''tbo'' (db worldNewUser)))"
    by (simp add: worldNewUser_def getTotalCost_def getCostLimit_def effectiveLimit_def)
  have n1: "normalizeRequest requestNoInput ''mistral-large-latest''
     = Inl (new_Error (''Ni prompt ni messages n'ont '' @ [CHR 0xE9] @ ''t'' @ [CHR 0xE9]
                       @ '' fournis''))"
    by (simp add: normalizeRequest_def requestNoInput_def)
  have n2: "normalizeRequest requestHello ''mistral-large-latest''
       = Inr \<lparr>messages = [\<lparr>role = ''user'', content = ''hello''\<rparr>], file_ids = [],
              model = ''mistral-large-latest''\<rparr>"
    by (simp add: normalizeRequest_def requestHello_def)
  have x: "adapterRateLimited \<lparr>messages = [\<lparr>role = ''user'', content = ''hello''\<rparr>],
                file_ids = [], model = ''mistral-large-latest''\<rparr>
       = Inl (new_Error (''Limite de taux API Mistral atteinte. Veuillez r'' @ [CHR 0xE9]
                         @ ''essayer plus tard.''))"
    by (simp add: adapterRateLimited_def MistralAdapter_sendChatRequest_def mistralMessages_def
        mistralError_def new_Error_def Let_def)
  have r1: "snd (processChatRequest Map.empty (Num 2) adapterAnswers ''tbo'' requestHello
          ''mistral-large-latest'' worldAtCeiling)
     = Inr \<lparr>content'' = [], usage'' = None, cost = 0, limitReached = True\<rparr>"
    using h1 by (simp add: processChatRequest_def Let_def reads_after_requests)
  have r2: "snd (processChatRequest Map.empty (Num 2) adapterAnswers ''tbo'' requestNoInput
            ''mistral-large-latest'' worldNewUser)
     = Inl (new_Error (''Ni prompt ni messages n'ont '' @ [CHR 0xE9] @ ''t'' @ [CHR 0xE9]
                       @ '' fournis''))"
    using h2 n1 by (simp add: processChatRequest_def Let_def reads_after_requests)
  have r3: "isl (snd (processChatRequest Map.empty (Num 2) adapterRateLimited ''tbo'' requestHello
                 ''mistral-large-latest'' worldNewUser))"
    using h2 n2 x
    by (simp add: processChatRequest_def Let_def reads_after_requests)
  have d1: "db worldAtCeiling ''tbo'' = Some rowAtCeiling" by (simp add: worldAtCeiling_def)
  have d2: "db worldNewUser ''tbo'' = None" by (simp add: worldNewUser_def)
  note t = processChatRequest_counts_every_request
  from t[of worldAtCeiling "''tbo''" Map.empty "Num 2" adapterAnswers requestHello
      "''mistral-large-latest''"] d1 f1
  have c1: "map_option totalRequests
        (db (fst (processChatRequest Map.empty (Num 2) adapterAnswers ''tbo'' requestHello
                    ''mistral-large-latest'' worldAtCeiling)) ''tbo'') = Some (Some 8)"
    by (auto simp: Let_def rowAtCeiling_def ISNULL_def)
  from t[of worldNewUser "''tbo''" Map.empty "Num 2" adapterAnswers requestNoInput
      "''mistral-large-latest''"] d2 f2
  have c2: "map_option totalRequests
        (db (fst (processChatRequest Map.empty (Num 2) adapterAnswers ''tbo'' requestNoInput
                    ''mistral-large-latest'' worldNewUser)) ''tbo'') = Some (Some 1)
     \<and> map_option totalRequestsWithFiles
        (db (fst (processChatRequest Map.empty (Num 2) adapterAnswers ''tbo'' requestNoInput
                    ''mistral-large-latest'' worldNewUser)) ''tbo'') = Some (Some 1)"
    by (auto simp: Let_def defaultRow_def ISNULL_def)
  from t[of worldNewUser "''tbo''" Map.empty "Num 2" adapterRateLimited requestHello
      "''mistral-large-latest''"] d2 f1
  have c3: "map_option totalRequests
        (db (fst (processChatRequest Map.empty (Num 2) adapterRateLimited ''tbo'' requestHello
                    ''mistral-large-latest'' worldNewUser)) ''tbo'') = Some (Some 1)"
    by (auto simp: Let_def defaultRow_def ISNULL_def)
  from r1 r2 r3 f2 c1 c2 c3 show ?thesis by simp
qed

end
